theory Spec2Isabelle
  imports Complex_Main "HOL-Library.AList"
begin

section \<open>JavaScript values\<close>

text \<open>
  A JavaScript string is a sequence of UTF-16 code units; \<open>length\<close> counts code units.
  The error texts of the library are Cyrillic, so strings are lists of code units and
  \<open>ascii\<close> embeds an ASCII literal.
\<close>

type_synonym jstring = "nat list"

definition ascii :: "string \<Rightarrow> jstring" where
  "ascii s = map of_char s"

text \<open>
  Numbers: \<open>NaN\<close>, the two infinities and the finite values. Only comparison is used by
  the code, so a finite double is read as the real number it denotes.
\<close>

datatype jsnum = NaN | NegInf | Fin real | PosInf

fun num_lt :: "jsnum \<Rightarrow> jsnum \<Rightarrow> bool" where
  "num_lt (Fin a) (Fin b) = (a < b)"
| "num_lt NegInf (Fin b) = True"
| "num_lt NegInf PosInf = True"
| "num_lt (Fin a) PosInf = True"
| "num_lt _ _ = False"

definition isNaN :: "jsnum \<Rightarrow> bool" where
  "isNaN x = (x = NaN)"

text \<open>
  The values a control can hand to the rule engine. \<open>VFileList n\<close> is a native file
  list holding \<open>n\<close> files, \<open>VArray n\<close> a true array of length \<open>n\<close> (the tests install
  one as the \<open>files\<close> property), \<open>VLenObj n\<close> a plain object \<open>{length: n}\<close>.
\<close>

datatype jsvalue =
    VNull
  | VUndefined
  | VStr jstring
  | VNum jsnum
  | VBool bool
  | VFileList nat
  | VArray nat
  | VLenObj nat

text \<open>
  Strict equality \<open>===\<close>: \<open>NaN\<close> differs from itself; objects are compared by
  reference, and the \<open>value\<close> property of a control never holds the object that
  \<open>files\<close> returns, so two object values are different.
\<close>

fun strict_eq :: "jsvalue \<Rightarrow> jsvalue \<Rightarrow> bool" where
  "strict_eq VNull VNull = True"
| "strict_eq VUndefined VUndefined = True"
| "strict_eq (VStr a) (VStr b) = (a = b)"
| "strict_eq (VNum a) (VNum b) = (a = b \<and> a \<noteq> NaN)"
| "strict_eq (VBool a) (VBool b) = (a = b)"
| "strict_eq _ _ = False"

definition truthy :: "jstring option \<Rightarrow> bool" where
  "truthy e = (case e of None \<Rightarrow> False | Some s \<Rightarrow> s \<noteq> [])"

definition or_default :: "jstring \<Rightarrow> jstring \<Rightarrow> jstring" where
  "or_default s dflt = (if s \<noteq> [] then s else dflt)"

definition template_str :: "jstring option \<Rightarrow> jstring" where
  "template_str a = (case a of None \<Rightarrow> ascii ''null'' | Some s \<Rightarrow> s)"

section \<open>The control tree\<close>

text \<open>
  The document is a store of nodes addressed by index; node \<open>0\<close> is the document node.
  A node carries what the library reads or writes: tag name, content attributes, class
  list, child nodes, text content, \<open>style.display\<close>, and the properties of a form
  control (\<open>type\<close>, \<open>checked\<close>, \<open>value\<close>, \<open>valueAsNumber\<close>, \<open>files\<close>, the
  native constraints and the native validity state). Text lives in text nodes: they
  have tag \<open>#text\<close> and carry their characters in \<open>nodeValue\<close>, which is empty for
  every other node. A node is in the tree through the child list of its parent only, so
  a node that is dropped from a child list is detached with everything below it.
\<close>

type_synonym nid = nat

record node =
  tag :: string
  attrs :: "string \<rightharpoonup> jstring"
  classList :: "jstring list"
  childNodes :: "nid list"
  nodeValue :: jstring
  display :: jstring
  el_type :: string
  el_checked :: bool
  el_value :: jsvalue
  el_valueAsNumber :: jsnum
  el_files :: jsvalue
  el_required :: bool
  el_minLength :: int
  el_maxLength :: int
  el_min :: jstring
  el_max :: jstring
  el_pattern :: jstring
  el_validationMessage :: jstring
  el_valid :: bool

type_synonym dom = "node list"

definition document :: nid where
  "document = 0"

definition node_of :: "dom \<Rightarrow> nid \<Rightarrow> node option" where
  "node_of d n = (if n < length d then Some (d ! n) else None)"

definition is_element :: "dom \<Rightarrow> nid \<Rightarrow> bool" where
  "is_element d n =
     (case node_of d n of None \<Rightarrow> False
      | Some x \<Rightarrow> tag x \<noteq> ''#text'' \<and> tag x \<noteq> ''#document'')"

definition child_nodes :: "dom \<Rightarrow> nid \<Rightarrow> nid list" where
  "child_nodes d n = (case node_of d n of None \<Rightarrow> [] | Some x \<Rightarrow> childNodes x)"

definition parentNode :: "dom \<Rightarrow> nid \<Rightarrow> nid option" where
  "parentNode d n = find (\<lambda>p. n \<in> set (child_nodes d p)) [0..<length d]"

definition parentElement :: "dom \<Rightarrow> nid \<Rightarrow> nid option" where
  "parentElement d n =
     (case parentNode d n of None \<Rightarrow> None
      | Some p \<Rightarrow> if is_element d p then Some p else None)"

definition following_siblings :: "dom \<Rightarrow> nid \<Rightarrow> nid list" where
  "following_siblings d n =
     (case parentNode d n of None \<Rightarrow> []
      | Some p \<Rightarrow> tl (dropWhile (\<lambda>c. c \<noteq> n) (child_nodes d p)))"

definition nextSibling :: "dom \<Rightarrow> nid \<Rightarrow> nid option" where
  "nextSibling d n = (case following_siblings d n of [] \<Rightarrow> None | s # _ \<Rightarrow> Some s)"

definition nextElementSibling :: "dom \<Rightarrow> nid \<Rightarrow> nid option" where
  "nextElementSibling d n = find (is_element d) (following_siblings d n)"

text \<open>
  Descendants in document order. The recursion is bounded by the number of nodes of the
  store, which bounds the depth of any tree held in it.
\<close>

fun descendants :: "dom \<Rightarrow> nat \<Rightarrow> nid \<Rightarrow> nid list" where
  "descendants d 0 n = []"
| "descendants d (Suc k) n = concat (map (\<lambda>c. c # descendants d k c) (child_nodes d n))"

fun ancestors :: "dom \<Rightarrow> nat \<Rightarrow> nid \<Rightarrow> nid list" where
  "ancestors d 0 n = []"
| "ancestors d (Suc k) n =
     (case parentElement d n of None \<Rightarrow> [] | Some p \<Rightarrow> p # ancestors d k p)"

definition querySelectorAll :: "dom \<Rightarrow> nid \<Rightarrow> (nid \<Rightarrow> bool) \<Rightarrow> nid list" where
  "querySelectorAll d start sel =
     filter sel (filter (is_element d) (descendants d (length d) start))"

definition querySelector :: "dom \<Rightarrow> nid \<Rightarrow> (nid \<Rightarrow> bool) \<Rightarrow> nid option" where
  "querySelector d start sel =
     find sel (filter (is_element d) (descendants d (length d) start))"

definition closest :: "dom \<Rightarrow> nid \<Rightarrow> (nid \<Rightarrow> bool) \<Rightarrow> nid option" where
  "closest d n sel = find sel (n # ancestors d (length d) n)"

text \<open>
  What \<open>textContent\<close> reports: the characters of a text node, and for any other node
  the characters of the text nodes below it, in document order. \<open>text_content\<close> takes
  the depth bound of the traversal as an argument.
\<close>

definition text_content :: "dom \<Rightarrow> nat \<Rightarrow> nid \<Rightarrow> jstring" where
  "text_content d fuel n =
     (case node_of d n of
        None \<Rightarrow> []
      | Some x \<Rightarrow>
          if tag x = ''#text'' then nodeValue x
          else concat (map (\<lambda>k. case node_of d k of
                                   None \<Rightarrow> []
                                 | Some y \<Rightarrow> if tag y = ''#text'' then nodeValue y else [])
                           (descendants d fuel n)))"

definition textContent :: "dom \<Rightarrow> nid \<Rightarrow> jstring" where
  "textContent d n = text_content d (length d) n"

text \<open>
  The selectors the library writes down itself. Names and ids spliced into a selector
  are taken to need no CSS escaping (no quote, backslash or line break). The value of the
  \<open>type\<close> attribute is matched without regard to ASCII case, as a selector does in an
  HTML document; \<open>name\<close>, \<open>id\<close> and \<open>for\<close> are matched exactly.
\<close>

definition getAttribute :: "dom \<Rightarrow> nid \<Rightarrow> string \<Rightarrow> jstring option" where
  "getAttribute d n a = (case node_of d n of None \<Rightarrow> None | Some x \<Rightarrow> attrs x a)"

definition hasAttribute :: "dom \<Rightarrow> nid \<Rightarrow> string \<Rightarrow> bool" where
  "hasAttribute d n a = (getAttribute d n a \<noteq> None)"

definition tag_is :: "dom \<Rightarrow> string \<Rightarrow> nid \<Rightarrow> bool" where
  "tag_is d t n = (case node_of d n of None \<Rightarrow> False | Some x \<Rightarrow> tag x = t)"

definition attr_is :: "dom \<Rightarrow> string \<Rightarrow> jstring \<Rightarrow> nid \<Rightarrow> bool" where
  "attr_is d a v n = (getAttribute d n a = Some v)"

definition has_class :: "dom \<Rightarrow> jstring \<Rightarrow> nid \<Rightarrow> bool" where
  "has_class d c n = (case node_of d n of None \<Rightarrow> False | Some x \<Rightarrow> c \<in> set (classList x))"

definition ascii_lower :: "jstring \<Rightarrow> jstring" where
  "ascii_lower s = map (\<lambda>c. if 65 \<le> c \<and> c \<le> 90 then c + 32 else c) s"

definition type_is :: "dom \<Rightarrow> jstring \<Rightarrow> nid \<Rightarrow> bool" where
  "type_is d v n =
     (case getAttribute d n ''type'' of None \<Rightarrow> False | Some t \<Rightarrow> ascii_lower t = v)"

definition sel_field_name :: "dom \<Rightarrow> nid \<Rightarrow> bool" where
  "sel_field_name d n = hasAttribute d n ''field-name''"

definition sel_form_elements :: "dom \<Rightarrow> nid \<Rightarrow> bool" where
  "sel_form_elements d n =
     ((tag_is d ''input'' n \<and> \<not> type_is d (ascii ''submit'') n
         \<and> \<not> type_is d (ascii ''button'') n
         \<and> \<not> type_is d (ascii ''reset'') n)
      \<or> tag_is d ''textarea'' n \<or> tag_is d ''select'' n \<or> tag_is d ''output'' n)"

definition sel_label_for :: "dom \<Rightarrow> jstring \<Rightarrow> nid \<Rightarrow> bool" where
  "sel_label_for d i n = (tag_is d ''label'' n \<and> attr_is d ''for'' i n)"

definition sel_checked_radio :: "dom \<Rightarrow> jstring \<Rightarrow> nid \<Rightarrow> bool" where
  "sel_checked_radio d nm n =
     (tag_is d ''input'' n \<and> type_is d (ascii ''radio'') n \<and> attr_is d ''name'' nm n
      \<and> (case node_of d n of None \<Rightarrow> False | Some x \<Rightarrow> el_checked x))"

definition sel_name :: "dom \<Rightarrow> jstring \<Rightarrow> nid \<Rightarrow> bool" where
  "sel_name d nm n = attr_is d ''name'' nm n"

definition error_message_class :: jstring where
  "error_message_class = ascii ''error-message''"

definition sel_error_message :: "dom \<Rightarrow> nid \<Rightarrow> bool" where
  "sel_error_message d n = has_class d error_message_class n"

text \<open>
  What the browser supplies: the selector engine for a selector given in the options,
  \<open>parseFloat\<close>, and the compilation of a pattern string into a regular expression
  (\<open>None\<close> when the expression does not compile). A compiled expression is the
  predicate its \<open>test\<close> method computes.
\<close>

record env =
  sel_matches :: "jstring \<Rightarrow> dom \<Rightarrow> nid \<Rightarrow> bool"
  parseFloat :: "jstring \<Rightarrow> jsnum"
  regexp :: "jstring \<Rightarrow> (jstring \<Rightarrow> bool) option"

section \<open>Rules and the rule engine (validator.ts)\<close>

definition msg_string :: jstring where
  "msg_string =
     [1055, 1086, 1083, 1077, 32, 1076, 1086, 1083, 1078, 1085, 1086, 32, 1073, 1099, 1090,
      1100, 32, 1089, 1090, 1088, 1086, 1082, 1086, 1081]"

definition msg_min :: jstring where
  "msg_min =
     [1052, 1080, 1085, 1080, 1084, 1072, 1083, 1100, 1085, 1072, 1103, 32, 1076, 1083, 1080,
      1085, 1072, 32, 1085, 1077, 32, 1076, 1086, 1089, 1090, 1080, 1075, 1085, 1091, 1090,
      1072]"

definition msg_max :: jstring where
  "msg_max =
     [1052, 1072, 1082, 1089, 1080, 1084, 1072, 1083, 1100, 1085, 1072, 1103, 32, 1076, 1083,
      1080, 1085, 1072, 32, 1087, 1088, 1077, 1074, 1099, 1096, 1077, 1085, 1072]"

definition msg_email :: jstring where
  "msg_email =
     [1053, 1077, 1082, 1086, 1088, 1088, 1077, 1082, 1090, 1085, 1099, 1081, 32, 101, 109,
      97, 105, 108]"

definition msg_required :: jstring where
  "msg_required =
     [1055, 1086, 1083, 1077, 32, 1086, 1073, 1103, 1079, 1072, 1090, 1077, 1083, 1100, 1085,
      1086, 32, 1076, 1083, 1103, 32, 1079, 1072, 1087, 1086, 1083, 1085, 1077, 1085, 1080,
      1103]"

definition msg_number :: jstring where
  "msg_number =
     [1055, 1086, 1083, 1077, 32, 1076, 1086, 1083, 1078, 1085, 1086, 32, 1073, 1099, 1090,
      1100, 32, 1095, 1080, 1089, 1083, 1086, 1084]"

definition msg_minNumber :: jstring where
  "msg_minNumber =
     [1047, 1085, 1072, 1095, 1077, 1085, 1080, 1077, 32, 1089, 1083, 1080, 1096, 1082, 1086,
      1084, 32, 1084, 1072, 1083, 1077, 1085, 1100, 1082, 1086, 1077]"

definition msg_maxNumber :: jstring where
  "msg_maxNumber =
     [1047, 1085, 1072, 1095, 1077, 1085, 1080, 1077, 32, 1089, 1083, 1080, 1096, 1082, 1086,
      1084, 32, 1073, 1086, 1083, 1100, 1096, 1086, 1077]"

definition msg_pattern :: jstring where
  "msg_pattern =
     [1053, 1077, 1074, 1077, 1088, 1085, 1099, 1081, 32, 1092, 1086, 1088, 1084, 1072, 1090]"

definition msg_confirm :: jstring where
  "msg_confirm =
     [1055, 1072, 1088, 1086, 1083, 1080, 32, 1085, 1077, 32, 1089, 1086, 1074, 1087, 1072,
      1076, 1072, 1102, 1090]"

definition msg_array :: jstring where
  "msg_array =
     [1055, 1086, 1083, 1077, 32, 1076, 1086, 1083, 1078, 1085, 1086, 32, 1073, 1099, 1090,
      1100, 32, 1084, 1072, 1089, 1089, 1080, 1074, 1086, 1084]"

definition msg_minLength :: jstring where
  "msg_minLength =
     [1052, 1080, 1085, 1080, 1084, 1072, 1083, 1100, 1085, 1086, 1077, 32, 1082, 1086, 1083,
      1080, 1095, 1077, 1089, 1090, 1074, 1086, 32, 1101, 1083, 1077, 1084, 1077, 1085, 1090,
      1086, 1074, 32, 1085, 1077, 32, 1076, 1086, 1089, 1090, 1080, 1075, 1085, 1091, 1090,
      1086]"

definition msg_maxLength :: jstring where
  "msg_maxLength =
     [1052, 1072, 1082, 1089, 1080, 1084, 1072, 1083, 1100, 1085, 1086, 1077, 32, 1082, 1086,
      1083, 1080, 1095, 1077, 1089, 1090, 1074, 1086, 32, 1101, 1083, 1077, 1084, 1077, 1085,
      1090, 1086, 1074, 32, 1087, 1088, 1077, 1074, 1099, 1096, 1077, 1085, 1086]"

definition msg_custom :: jstring where
  "msg_custom =
     [1053, 1077, 1074, 1077, 1088, 1085, 1086, 1077, 32, 1079, 1085, 1072, 1095, 1077, 1085,
      1080, 1077]"

text \<open>
  A rule is \<open>{type, value?, error}\<close>; the type tags the kind of the value. Only the
  builders push rules, so the \<open>default\<close> branch of \<open>checkRule\<close> for an unknown
  type is not reachable and the type is closed. A custom predicate answers a boolean or a
  string. A regular expression is the predicate its \<open>test\<close> method computes; the
  expressions are taken without the \<open>g\<close> and \<open>y\<close> flags, which would make \<open>test\<close>
  depend on earlier calls. The convenience builders (\<open>phone\<close>, \<open>url\<close>, \<open>date\<close>,
  \<open>time\<close>, \<open>zipCode\<close>, \<open>creditCard\<close>, \<open>ipAddress\<close>, \<open>inn\<close>, \<open>snils\<close>,
  \<open>passwordStrong\<close>) call \<open>pattern\<close> or \<open>custom\<close> with a fixed expression or
  predicate.
\<close>

datatype custom_result = CBool bool | CStr jstring

datatype rule_type =
    IsString
  | Min jsnum
  | Max jsnum
  | Email
  | Required
  | IsNumber
  | MinNumber jsnum
  | MaxNumber jsnum
  | Pattern "jstring \<Rightarrow> bool"
  | Confirm jstring
  | IsArray
  | MinLength jsnum
  | MaxLength jsnum
  | Custom "jstring \<Rightarrow> custom_result"

record rule =
  rtype :: rule_type
  error :: jstring

record validator =
  element :: nid
  form :: nid
  rules :: "rule list"
  config_fieldName :: jstring
  cur_value :: jsvalue

datatype exn = FieldNotFound jstring | ValidatorNotFound jstring | PatternSyntaxError

definition getValue :: "dom \<Rightarrow> validator \<Rightarrow> jsvalue" where
  "getValue d v =
     (case node_of d (element v) of None \<Rightarrow> VNull
      | Some el \<Rightarrow>
          if tag el = ''input'' then
            if el_type el = ''checkbox'' then VBool (el_checked el)
            else if el_type el = ''radio'' then
              (case querySelector d (form v)
                      (sel_checked_radio d (template_str (attrs el ''name''))) of
                 None \<Rightarrow> VNull
               | Some r \<Rightarrow> (case node_of d r of None \<Rightarrow> VNull | Some x \<Rightarrow> el_value x))
            else if el_type el = ''number'' \<or> el_type el = ''range'' then
              VNum (el_valueAsNumber el)
            else if el_type el = ''file'' then el_files el
            else el_value el
          else if tag el = ''textarea'' then el_value el
          else if tag el = ''select'' then el_value el
          else VNull)"

text \<open>The rule builders: each appends one rule and returns the same engine.\<close>

definition push :: "rule_type \<Rightarrow> jstring \<Rightarrow> validator \<Rightarrow> validator" where
  "push t e v = v\<lparr>rules := rules v @ [\<lparr>rtype = t, error = e\<rparr>]\<rparr>"

definition string_rule :: "jstring \<Rightarrow> validator \<Rightarrow> validator" where
  "string_rule e = push IsString e"

definition min_rule :: "jsnum \<Rightarrow> jstring \<Rightarrow> validator \<Rightarrow> validator" where
  "min_rule count e = push (Min count) e"

definition max_rule :: "jsnum \<Rightarrow> jstring \<Rightarrow> validator \<Rightarrow> validator" where
  "max_rule count e = push (Max count) e"

definition email :: "jstring \<Rightarrow> validator \<Rightarrow> validator" where
  "email e = push Email e"

definition required :: "jstring \<Rightarrow> validator \<Rightarrow> validator" where
  "required e = push Required e"

definition number :: "jstring \<Rightarrow> validator \<Rightarrow> validator" where
  "number e = push IsNumber e"

definition minNumber :: "jsnum \<Rightarrow> jstring \<Rightarrow> validator \<Rightarrow> validator" where
  "minNumber x e = push (MinNumber x) e"

definition maxNumber :: "jsnum \<Rightarrow> jstring \<Rightarrow> validator \<Rightarrow> validator" where
  "maxNumber x e = push (MaxNumber x) e"

definition pattern :: "(jstring \<Rightarrow> bool) \<Rightarrow> jstring \<Rightarrow> validator \<Rightarrow> validator" where
  "pattern re e = push (Pattern re) e"

definition confirm :: "jstring \<Rightarrow> jstring \<Rightarrow> validator \<Rightarrow> validator" where
  "confirm passwordField e = push (Confirm passwordField) e"

definition array :: "jstring \<Rightarrow> validator \<Rightarrow> validator" where
  "array e = push IsArray e"

definition minLength :: "jsnum \<Rightarrow> jstring \<Rightarrow> validator \<Rightarrow> validator" where
  "minLength count e = push (MinLength count) e"

definition maxLength :: "jsnum \<Rightarrow> jstring \<Rightarrow> validator \<Rightarrow> validator" where
  "maxLength count e = push (MaxLength count) e"

definition custom :: "(jstring \<Rightarrow> custom_result) \<Rightarrow> jstring \<Rightarrow> validator \<Rightarrow> validator" where
  "custom f e = push (Custom f) e"

text \<open>
  The expression \<^verbatim>\<open>/^[^\s@]+@[^\s@]+\.[^\s@]+$/\<close> of the email rule: no white space
  anywhere, a non-empty part before the only \<open>@\<close>, and after it a dot that is neither
  the first nor the last code unit.
\<close>

definition is_space :: "nat \<Rightarrow> bool" where
  "is_space c =
     (c \<in> {9, 10, 11, 12, 13, 32, 160, 5760, 8232, 8233, 8239, 8287, 12288, 65279}
      \<or> (8192 \<le> c \<and> c \<le> 8202))"

definition emailRegex_test :: "jstring \<Rightarrow> bool" where
  "emailRegex_test s =
     (let local_part = takeWhile (\<lambda>c. c \<noteq> 64) s;
          rest = drop (length local_part + 1) s
      in local_part \<noteq> [] \<and> length local_part < length s
         \<and> list_all (\<lambda>c. \<not> is_space c) s
         \<and> 64 \<notin> set rest
         \<and> 46 \<in> set (butlast (tl rest)))"

definition checkRule :: "env \<Rightarrow> dom \<Rightarrow> validator \<Rightarrow> rule \<Rightarrow> jstring option" where
  "checkRule env d v r =
     (let val = cur_value v; e = error r in
      case rtype r of
        IsString \<Rightarrow> (case val of VStr s \<Rightarrow> None | _ \<Rightarrow> Some e)
      | Required \<Rightarrow>
          (if val = VNull \<or> val = VUndefined \<or> val = VStr []
              \<or> val = VArray 0 \<or> val = VBool False \<or> val = VFileList 0
           then Some e else None)
      | Min minValue \<Rightarrow>
          (case val of
             VStr s \<Rightarrow> if num_lt (Fin (real (length s))) minValue then Some e else None
           | _ \<Rightarrow> None)
      | Max maxValue \<Rightarrow>
          (case val of
             VStr s \<Rightarrow> if num_lt maxValue (Fin (real (length s))) then Some e else None
           | _ \<Rightarrow> None)
      | Email \<Rightarrow>
          (case val of
             VStr s \<Rightarrow> if \<not> emailRegex_test s then Some e else None
           | _ \<Rightarrow> None)
      | IsNumber \<Rightarrow>
          (if (case val of VNum x \<Rightarrow> isNaN x | _ \<Rightarrow> True)
              \<and> (case val of VStr s \<Rightarrow> isNaN (parseFloat env s) | _ \<Rightarrow> True)
           then Some e else None)
      | MinNumber minNumValue \<Rightarrow>
          (case (case val of VStr s \<Rightarrow> VNum (parseFloat env s) | _ \<Rightarrow> val) of
             VNum x \<Rightarrow> if \<not> isNaN x \<and> num_lt x minNumValue then Some e else None
           | _ \<Rightarrow> None)
      | MaxNumber maxNumValue \<Rightarrow>
          (case (case val of VStr s \<Rightarrow> VNum (parseFloat env s) | _ \<Rightarrow> val) of
             VNum x \<Rightarrow> if \<not> isNaN x \<and> num_lt maxNumValue x then Some e else None
           | _ \<Rightarrow> None)
      | Pattern re \<Rightarrow>
          (case val of VStr s \<Rightarrow> if \<not> re s then Some e else None | _ \<Rightarrow> None)
      | IsArray \<Rightarrow> (case val of VArray n \<Rightarrow> None | _ \<Rightarrow> Some e)
      | MinLength minLengthValue \<Rightarrow>
          (case val of
             VArray n \<Rightarrow> if num_lt (Fin (real n)) minLengthValue then Some e else None
           | _ \<Rightarrow> None)
      | MaxLength maxLengthValue \<Rightarrow>
          (case val of
             VArray n \<Rightarrow> if num_lt maxLengthValue (Fin (real n)) then Some e else None
           | _ \<Rightarrow> None)
      | Confirm confirmFieldName \<Rightarrow>
          (case querySelector d (form v) (sel_name d confirmFieldName) of
             None \<Rightarrow> None
           | Some confirmField \<Rightarrow>
               (case node_of d confirmField of
                  None \<Rightarrow> None
                | Some x \<Rightarrow> if \<not> strict_eq (el_value x) val then Some e else None))
      | Custom customValidator \<Rightarrow>
          (case val of
             VStr s \<Rightarrow>
               (case customValidator s of
                  CStr m \<Rightarrow> Some m
                | CBool b \<Rightarrow> if b = False then Some e else None)
           | _ \<Rightarrow> Some e))"

text \<open>
  The loop of \<open>validate\<close>. It leaves at the first rule whose error is truthy; the first
  component records the rules \<open>checkRule\<close> was called on, in order.
\<close>

fun run_rules :: "env \<Rightarrow> dom \<Rightarrow> validator \<Rightarrow> rule list \<Rightarrow> rule list \<times> jstring option" where
  "run_rules env d v [] = ([], None)"
| "run_rules env d v (r # rs) =
     (let err = checkRule env d v r in
      if truthy err then ([r], err)
      else (case run_rules env d v rs of (checked, res) \<Rightarrow> (r # checked, res)))"

definition has_validity :: "node \<Rightarrow> bool" where
  "has_validity el = (tag el = ''input'' \<or> tag el = ''textarea'' \<or> tag el = ''select'')"

definition refresh :: "dom \<Rightarrow> validator \<Rightarrow> validator" where
  "refresh d v = v\<lparr>cur_value := getValue d v\<rparr>"

definition validate_checked :: "env \<Rightarrow> dom \<Rightarrow> validator \<Rightarrow> rule list" where
  "validate_checked env d v = fst (run_rules env d (refresh d v) (rules v))"

definition validate :: "env \<Rightarrow> dom \<Rightarrow> validator \<Rightarrow> jstring option \<times> validator" where
  "validate env d v =
     (let v' = refresh d v;
          res = snd (run_rules env d v' (rules v'))
      in if truthy res then (res, v')
         else (case node_of d (element v') of
                 None \<Rightarrow> (None, v')
               | Some el \<Rightarrow>
                   if has_validity el \<and> \<not> el_valid el
                   then (Some (or_default (el_validationMessage el) msg_custom), v')
                   else (None, v')))"

text \<open>Implicit rules from the native constraints, loaded by the constructor.\<close>

definition string_capable :: "string \<Rightarrow> bool" where
  "string_capable t =
     (t = ''text'' \<or> t = ''password'' \<or> t = ''email'' \<or> t = ''search'' \<or> t = ''tel''
      \<or> t = ''url'')"

definition loadInputConstraints :: "env \<Rightarrow> node \<Rightarrow> validator \<Rightarrow> exn + validator" where
  "loadInputConstraints env el v0 =
     (let msg = el_validationMessage el;
          v1 = (if el_required el then required (or_default msg msg_required) v0 else v0);
          v2 = (if string_capable (el_type el) \<and> el_minLength el > 0
                then min_rule (Fin (real_of_int (el_minLength el))) (or_default msg msg_min) v1
                else v1);
          v3 = (if string_capable (el_type el) \<and> el_maxLength el > 0
                then max_rule (Fin (real_of_int (el_maxLength el))) (or_default msg msg_max) v2
                else v2);
          v4 = (if (el_type el = ''number'' \<or> el_type el = ''range'') \<and> el_min el \<noteq> []
                then minNumber (parseFloat env (el_min el)) (or_default msg msg_minNumber) v3
                else v3);
          v5 = (if (el_type el = ''number'' \<or> el_type el = ''range'') \<and> el_max el \<noteq> []
                then maxNumber (parseFloat env (el_max el)) (or_default msg msg_maxNumber) v4
                else v4);
          last_step = (\<lambda>v. if el_type el = ''email''
                           then email (or_default msg msg_email) v else v)
      in if string_capable (el_type el) \<and> el_pattern el \<noteq> [] then
           (case regexp env (el_pattern el) of
              None \<Rightarrow> Inl PatternSyntaxError
            | Some re \<Rightarrow> Inr (last_step (pattern re (or_default msg msg_pattern) v5)))
         else Inr (last_step v5))"

definition loadTextAreaConstraints :: "node \<Rightarrow> validator \<Rightarrow> validator" where
  "loadTextAreaConstraints el v0 =
     (let msg = el_validationMessage el;
          v1 = (if el_required el then required (or_default msg msg_required) v0 else v0);
          v2 = (if el_minLength el > 0
                then min_rule (Fin (real_of_int (el_minLength el))) (or_default msg msg_min) v1
                else v1)
      in if el_maxLength el > 0
         then max_rule (Fin (real_of_int (el_maxLength el))) (or_default msg msg_max) v2
         else v2)"

definition loadConstraintValidation :: "env \<Rightarrow> dom \<Rightarrow> validator \<Rightarrow> exn + validator" where
  "loadConstraintValidation env d v =
     (case node_of d (element v) of
        None \<Rightarrow> Inr v
      | Some el \<Rightarrow>
          (case (if tag el = ''input'' then loadInputConstraints env el v
                 else if tag el = ''textarea'' then Inr (loadTextAreaConstraints el v)
                 else Inr v) of
             Inl x \<Rightarrow> Inl x
           | Inr v' \<Rightarrow>
               if has_validity el \<and> el_required el
               then Inr (required (or_default (el_validationMessage el) msg_required) v')
               else Inr v'))"

definition new_Validator :: "env \<Rightarrow> dom \<Rightarrow> nid \<Rightarrow> nid \<Rightarrow> jstring \<Rightarrow> exn + validator" where
  "new_Validator env d el frm name =
     (let v0 = \<lparr>element = el, form = frm, rules = [], config_fieldName = name, cur_value = VNull\<rparr>
      in loadConstraintValidation env d (v0\<lparr>cur_value := getValue d v0\<rparr>))"

section \<open>Writing to the control tree\<close>

text \<open>
  Class names passed to \<open>classList\<close> are single tokens. A new node is appended to the
  store and is in no child list until it is inserted. Assigning \<open>textContent\<close> of an
  element replaces its children by one new text node holding the string, or by nothing
  when the string is empty; on a text node it replaces the characters, and on the
  document node it does nothing.
\<close>

definition upd :: "nid \<Rightarrow> (node \<Rightarrow> node) \<Rightarrow> dom \<Rightarrow> dom" where
  "upd n f d = (if n < length d then d[n := f (d ! n)] else d)"

definition new_node :: "string \<Rightarrow> node" where
  "new_node t =
     \<lparr>tag = t, attrs = Map.empty, classList = [], childNodes = [], nodeValue = [],
      display = [], el_type = [], el_checked = False, el_value = VUndefined,
      el_valueAsNumber = NaN, el_files = VUndefined, el_required = False,
      el_minLength = - 1, el_maxLength = - 1, el_min = [], el_max = [], el_pattern = [],
      el_validationMessage = [], el_valid = True\<rparr>"

definition classList_add :: "nid \<Rightarrow> jstring \<Rightarrow> dom \<Rightarrow> dom" where
  "classList_add n c =
     upd n (\<lambda>x. if c \<in> set (classList x) then x else x\<lparr>classList := classList x @ [c]\<rparr>)"

definition classList_remove :: "nid \<Rightarrow> jstring \<Rightarrow> dom \<Rightarrow> dom" where
  "classList_remove n c = upd n (\<lambda>x. x\<lparr>classList := removeAll c (classList x)\<rparr>)"

definition set_textContent :: "nid \<Rightarrow> jstring \<Rightarrow> dom \<Rightarrow> dom" where
  "set_textContent n s d =
     (case node_of d n of
        None \<Rightarrow> d
      | Some x \<Rightarrow>
          if tag x = ''#text'' then upd n (\<lambda>y. y\<lparr>nodeValue := s\<rparr>) d
          else if tag x = ''#document'' then d
          else if s = [] then upd n (\<lambda>y. y\<lparr>childNodes := []\<rparr>) d
          else upd n (\<lambda>y. y\<lparr>childNodes := [length d]\<rparr>)
                 (d @ [(new_node ''#text'')\<lparr>nodeValue := s\<rparr>]))"

definition set_display :: "nid \<Rightarrow> jstring \<Rightarrow> dom \<Rightarrow> dom" where
  "set_display n s = upd n (\<lambda>x. x\<lparr>display := s\<rparr>)"

definition set_className :: "nid \<Rightarrow> jstring \<Rightarrow> dom \<Rightarrow> dom" where
  "set_className n c = upd n (\<lambda>x. x\<lparr>classList := [c]\<rparr>)"

definition setAttribute :: "nid \<Rightarrow> string \<Rightarrow> jstring \<Rightarrow> dom \<Rightarrow> dom" where
  "setAttribute n a v = upd n (\<lambda>x. x\<lparr>attrs := (attrs x)(a \<mapsto> v)\<rparr>)"

definition createElement :: "string \<Rightarrow> dom \<Rightarrow> nid \<times> dom" where
  "createElement t d = (length d, d @ [new_node t])"

definition appendChild :: "nid \<Rightarrow> nid \<Rightarrow> dom \<Rightarrow> dom" where
  "appendChild p c = upd p (\<lambda>x. x\<lparr>childNodes := childNodes x @ [c]\<rparr>)"

definition insertBefore :: "nid \<Rightarrow> nid \<Rightarrow> nid \<Rightarrow> dom \<Rightarrow> dom" where
  "insertBefore p c before =
     upd p (\<lambda>x. x\<lparr>childNodes := takeWhile (\<lambda>k. k \<noteq> before) (childNodes x) @ c #
                                  dropWhile (\<lambda>k. k \<noteq> before) (childNodes x)\<rparr>)"

section \<open>The field registry (form-connector.ts)\<close>

text \<open>
  The options the core reads. The registry merges them over a default with a spread, which
  tells an \<open>errorContainer\<close> that is absent from one that is present and
  \<open>undefined\<close>; for the class options, which are only tested for truth, both are
  \<open>None\<close>.
\<close>

datatype optional_string = Absent | Undefined | Str jstring

record field_options =
  errorContainer :: optional_string
  errorClass :: "jstring option"
  validClass :: "jstring option"
  invalidClass :: "jstring option"

record form_connector =
  formElement :: nid
  inputElements :: "(jstring \<times> nid) list"
  labels :: "(jstring \<times> nid option) list"
  errorContainers :: "(jstring \<times> nid) list"
  fc_options :: field_options

text \<open>
  A \<open>Map\<close> is an association list in insertion order; \<open>set\<close> on a key already present
  replaces the value in place, which is \<open>AList.update\<close>.
\<close>

definition register_marked :: "dom \<Rightarrow> (jstring \<times> nid) list \<Rightarrow> nid \<Rightarrow> (jstring \<times> nid) list" where
  "register_marked d m el =
     (case getAttribute d el ''field-name'' of
        None \<Rightarrow> m
      | Some fieldName \<Rightarrow> if fieldName \<noteq> [] then AList.update fieldName el m else m)"

definition unclaimed :: "(jstring \<times> nid) list \<Rightarrow> jstring option \<Rightarrow> jstring option" where
  "unclaimed m a =
     (case a of None \<Rightarrow> None
      | Some k \<Rightarrow> if k \<noteq> [] \<and> map_of m k = None then Some k else None)"

definition register_plain :: "dom \<Rightarrow> (jstring \<times> nid) list \<Rightarrow> nid \<Rightarrow> (jstring \<times> nid) list" where
  "register_plain d m el =
     (if hasAttribute d el ''field-name'' then m
      else (case unclaimed m (getAttribute d el ''name'') of
              Some name \<Rightarrow> AList.update name el m
            | None \<Rightarrow>
                (case unclaimed m (getAttribute d el ''id'') of
                   Some ident \<Rightarrow> AList.update ident el m
                 | None \<Rightarrow> m)))"

definition collectFields :: "dom \<Rightarrow> nid \<Rightarrow> (jstring \<times> nid) list" where
  "collectFields d frm =
     foldl (register_plain d)
       (foldl (register_marked d) [] (querySelectorAll d frm (sel_field_name d)))
       (querySelectorAll d frm (sel_form_elements d))"

definition resolve_label :: "dom \<Rightarrow> nid \<Rightarrow> nid \<Rightarrow> nid option" where
  "resolve_label d frm el =
     (case (case getAttribute d el ''id'' of
              None \<Rightarrow> None
            | Some i \<Rightarrow> if i \<noteq> [] then querySelector d frm (sel_label_for d i) else None) of
        Some l \<Rightarrow> Some l
      | None \<Rightarrow> closest d el (tag_is d ''label''))"

definition starts_with_hash :: "jstring \<Rightarrow> bool" where
  "starts_with_hash s = (case s of [] \<Rightarrow> False | c # _ \<Rightarrow> c = 35)"

text \<open>
  The conditional expression of the source binds weaker than \<open>||\<close>: the three lookups
  form its condition, and its value is the next element sibling or \<open>null\<close>.
\<close>

definition configured_container :: "env \<Rightarrow> dom \<Rightarrow> jstring \<Rightarrow> nid \<Rightarrow> nid option" where
  "configured_container env d sel el =
     (if starts_with_hash sel then querySelector d document (sel_matches env sel d)
      else if closest d el (sel_matches env sel d) \<noteq> None
              \<or> (case parentElement d el of
                    None \<Rightarrow> False
                  | Some p \<Rightarrow> querySelector d p (sel_matches env sel d) \<noteq> None)
              \<or> (case nextElementSibling d el of
                    None \<Rightarrow> False
                  | Some sib \<Rightarrow> sel_matches env sel d sib)
           then nextElementSibling d el
           else None)"

definition default_container :: "dom \<Rightarrow> nid \<Rightarrow> nid option" where
  "default_container d el =
     (case parentElement d el of
        None \<Rightarrow> None
      | Some p \<Rightarrow>
          (case querySelector d p (sel_error_message d) of
             Some c \<Rightarrow> Some c
           | None \<Rightarrow>
               (case nextElementSibling d el of
                  None \<Rightarrow> None
                | Some sib \<Rightarrow> if has_class d error_message_class sib then Some sib else None)))"

definition resolve_errorContainer :: "env \<Rightarrow> dom \<Rightarrow> field_options \<Rightarrow> nid \<Rightarrow> nid option" where
  "resolve_errorContainer env d opts el =
     (case (case errorContainer opts of
              Str sel \<Rightarrow> if sel \<noteq> [] then configured_container env d sel el else None
            | _ \<Rightarrow> None) of
        Some c \<Rightarrow> Some c
      | None \<Rightarrow> default_container d el)"

definition merge_options :: "field_options \<Rightarrow> field_options" where
  "merge_options opts =
     (case errorContainer opts of
        Absent \<Rightarrow> opts\<lparr>errorContainer := Str (ascii ''.error-message'')\<rparr>
      | _ \<Rightarrow> opts)"

definition new_FormConnector :: "env \<Rightarrow> dom \<Rightarrow> nid \<Rightarrow> field_options \<Rightarrow> form_connector" where
  "new_FormConnector env d frm opts =
     (let inputs = collectFields d frm in
      \<lparr>formElement = frm,
       inputElements = inputs,
       labels = map (\<lambda>(fieldName, el). (fieldName, resolve_label d frm el)) inputs,
       errorContainers =
         List.map_filter
           (\<lambda>(fieldName, el).
              map_option (Pair fieldName) (resolve_errorContainer env d (merge_options opts) el))
           inputs,
       fc_options = merge_options opts\<rparr>)"

definition fc_field :: "form_connector \<Rightarrow> jstring \<Rightarrow> nid option" where
  "fc_field fc fieldName = map_of (inputElements fc) fieldName"

definition getLabel :: "form_connector \<Rightarrow> jstring \<Rightarrow> nid option" where
  "getLabel fc fieldName =
     (case map_of (labels fc) fieldName of Some (Some l) \<Rightarrow> Some l | _ \<Rightarrow> None)"

definition getErrorContainer :: "env \<Rightarrow> dom \<Rightarrow> form_connector \<Rightarrow> jstring \<Rightarrow> nid option" where
  "getErrorContainer env d fc fieldName =
     (case map_of (errorContainers fc) fieldName of
        Some c \<Rightarrow> Some c
      | None \<Rightarrow>
          (case errorContainer (fc_options fc) of
             Str sel \<Rightarrow>
               if sel \<noteq> [] \<and> starts_with_hash sel
               then querySelector d document (sel_matches env sel d)
               else None
           | _ \<Rightarrow> None))"

section \<open>The orchestrator (index.ts)\<close>

record v_state =
  formc :: form_connector
  validators :: "(jstring \<times> validator) list"
  options :: field_options

text \<open>
  \<open>errors\<close> is a plain object created by \<open>{}\<close>. Its entries are its own
  properties. An assignment under the key \<open>__proto__\<close> reaches the setter inherited from
  the object prototype and stores no entry: \<open>null\<close> clears the prototype, a string is
  ignored. Once the prototype is cleared the key is stored like any other.
\<close>

record errors_object =
  own :: "jstring \<rightharpoonup> jstring option"
  proto_null :: bool

definition proto_key :: jstring where
  "proto_key = ascii ''__proto__''"

definition empty_errors :: errors_object where
  "empty_errors = \<lparr>own = Map.empty, proto_null = False\<rparr>"

definition errors_set :: "jstring \<Rightarrow> jstring option \<Rightarrow> errors_object \<Rightarrow> errors_object" where
  "errors_set k v obj =
     (if k = proto_key \<and> \<not> proto_null obj
      then (case v of None \<Rightarrow> obj\<lparr>proto_null := True\<rparr> | Some m \<Rightarrow> obj)
      else obj\<lparr>own := (own obj)(k \<mapsto> v)\<rparr>)"

record validation_result =
  isValid :: bool
  errors :: errors_object

definition new_V :: "env \<Rightarrow> dom \<Rightarrow> nid \<Rightarrow> field_options \<Rightarrow> v_state" where
  "new_V env d frm opts =
     \<lparr>formc = new_FormConnector env d frm opts, validators = [], options = opts\<rparr>"

text \<open>
  \<open>field\<close> answers the engine registered under the name. The engine is a mutable object
  shared through the map, so the name is its reference: \<open>on_engine\<close> runs a builder
  call on the engine that \<open>field\<close> returned.
\<close>

definition V_field :: "env \<Rightarrow> dom \<Rightarrow> jstring \<Rightarrow> v_state \<Rightarrow> (exn + validator) \<times> v_state" where
  "V_field env d fieldName s =
     (case fc_field (formc s) fieldName of
        None \<Rightarrow> (Inl (FieldNotFound fieldName), s)
      | Some el \<Rightarrow>
          (case map_of (validators s) fieldName of
             Some v \<Rightarrow> (Inr v, s)
           | None \<Rightarrow>
               (case new_Validator env d el (formElement (formc s)) fieldName of
                  Inl x \<Rightarrow> (Inl x, s)
                | Inr v \<Rightarrow>
                    (Inr v, s\<lparr>validators := AList.update fieldName v (validators s)\<rparr>))))"

definition on_engine :: "jstring \<Rightarrow> (validator \<Rightarrow> validator) \<Rightarrow> v_state \<Rightarrow> v_state" where
  "on_engine fieldName f s = s\<lparr>validators := AList.map_entry fieldName f (validators s)\<rparr>"

definition error_class :: "field_options \<Rightarrow> jstring" where
  "error_class opts =
     (case errorClass opts of
        None \<Rightarrow> ascii ''error''
      | Some c \<Rightarrow> if c \<noteq> [] then c else ascii ''error'')"

definition place_container :: "v_state \<Rightarrow> jstring \<Rightarrow> nid \<Rightarrow> nid \<Rightarrow> dom \<Rightarrow> dom" where
  "place_container s fieldName el c d =
     (let fallback = (case parentNode d el of None \<Rightarrow> d | Some p \<Rightarrow> appendChild p c d) in
      case getLabel (formc s) fieldName of
        None \<Rightarrow> fallback
      | Some l \<Rightarrow>
          (case parentNode d l of
             None \<Rightarrow> fallback
           | Some lp \<Rightarrow>
               (case nextSibling d l of
                  None \<Rightarrow> fallback
                | Some nxt \<Rightarrow> insertBefore lp c nxt d)))"

definition V_showError :: "env \<Rightarrow> v_state \<Rightarrow> jstring \<Rightarrow> jstring \<Rightarrow> dom \<Rightarrow> dom" where
  "V_showError env s fieldName err d =
     (case fc_field (formc s) fieldName of
        None \<Rightarrow> d
      | Some el \<Rightarrow>
          (let d1 = (case validClass (options s) of
                       None \<Rightarrow> d
                     | Some c \<Rightarrow> if c \<noteq> [] then classList_remove el c d else d);
               d2 = (case invalidClass (options s) of
                       None \<Rightarrow> d1
                     | Some c \<Rightarrow> if c \<noteq> [] then classList_add el c d1 else d1);
               d3 = classList_add el (error_class (options s)) d2
           in case getErrorContainer env d3 (formc s) fieldName of
                Some c \<Rightarrow> set_display c (ascii ''block'') (set_textContent c err d3)
              | None \<Rightarrow>
                  (case createElement ''div'' d3 of
                     (c, d4) \<Rightarrow>
                       set_display c (ascii ''block'')
                         (set_textContent c err
                            (place_container s fieldName el c
                               (setAttribute c ''data-field'' fieldName
                                  (set_className c error_message_class d4)))))))"

definition V_clearError :: "env \<Rightarrow> v_state \<Rightarrow> jstring \<Rightarrow> dom \<Rightarrow> dom" where
  "V_clearError env s fieldName d =
     (case fc_field (formc s) fieldName of
        None \<Rightarrow> d
      | Some el \<Rightarrow>
          (let d1 = classList_remove el (error_class (options s)) d;
               d2 = (case invalidClass (options s) of
                       None \<Rightarrow> d1
                     | Some c \<Rightarrow> if c \<noteq> [] then classList_remove el c d1 else d1);
               d3 = (case validClass (options s) of
                       None \<Rightarrow> classList_add el (ascii ''valid'') d2
                     | Some c \<Rightarrow>
                         if c \<noteq> [] then classList_add el c d2
                         else classList_add el (ascii ''valid'') d2)
           in case getErrorContainer env d3 (formc s) fieldName of
                Some c \<Rightarrow> set_display c (ascii ''none'') (set_textContent c [] d3)
              | None \<Rightarrow> d3))"

definition present :: "env \<Rightarrow> v_state \<Rightarrow> jstring \<Rightarrow> jstring option \<Rightarrow> dom \<Rightarrow> dom" where
  "present env s fieldName err d =
     (case err of
        None \<Rightarrow> V_clearError env s fieldName d
      | Some m \<Rightarrow> if m \<noteq> [] then V_showError env s fieldName m d
                  else V_clearError env s fieldName d)"

text \<open>
  The loop of \<open>V.validate\<close> over the engines in insertion order. Each engine refreshes
  its cached value; the accumulator holds \<open>isValid\<close>, \<open>errors\<close>, the document and
  the engines already run.
\<close>

fun validate_loop ::
  "env \<Rightarrow> v_state \<Rightarrow> (jstring \<times> validator) list
     \<Rightarrow> bool \<times> errors_object \<times> dom \<times> (jstring \<times> validator) list
     \<Rightarrow> bool \<times> errors_object \<times> dom \<times> (jstring \<times> validator) list" where
  "validate_loop env s [] acc = acc"
| "validate_loop env s ((fieldName, v) # rest) (ok, errs, d, finished) =
     (case validate env d v of
        (err, v') \<Rightarrow>
          validate_loop env s rest
            (if truthy err then False else ok,
             errors_set fieldName err errs,
             present env s fieldName err d,
             finished @ [(fieldName, v')]))"

definition V_validate :: "env \<Rightarrow> dom \<Rightarrow> v_state \<Rightarrow> validation_result \<times> dom \<times> v_state" where
  "V_validate env d s =
     (case validate_loop env s (validators s) (True, empty_errors, d, []) of
        (ok, errs, d', finished) \<Rightarrow>
          (\<lparr>isValid = ok, errors = errs\<rparr>, d', s\<lparr>validators := finished\<rparr>))"

definition V_validateField ::
  "env \<Rightarrow> dom \<Rightarrow> jstring \<Rightarrow> v_state \<Rightarrow> (exn + jstring option) \<times> dom \<times> v_state" where
  "V_validateField env d fieldName s =
     (case map_of (validators s) fieldName of
        None \<Rightarrow> (Inl (ValidatorNotFound fieldName), d, s)
      | Some v \<Rightarrow>
          (case validate env d v of
             (err, v') \<Rightarrow>
               (Inr err, present env s fieldName err d,
                s\<lparr>validators := AList.update fieldName v' (validators s)\<rparr>)))"

definition V_reset :: "env \<Rightarrow> v_state \<Rightarrow> dom \<Rightarrow> dom" where
  "V_reset env s d = foldl (\<lambda>d' fieldName. V_clearError env s fieldName d') d (map fst (validators s))"

section \<open>Example documents\<close>

text \<open>
  Concrete forms for the examples below. \<open>simple_sel\<close> is the selector engine
  restricted to the two selector shapes the examples configure, \<open>.class\<close> and
  \<open>#id\<close>; \<open>parseFloat\<close> and \<open>regexp\<close> are not called on these forms.
\<close>

definition simple_sel :: "jstring \<Rightarrow> dom \<Rightarrow> nid \<Rightarrow> bool" where
  "simple_sel sel d n =
     (case sel of
        [] \<Rightarrow> False
      | c # rest \<Rightarrow>
          if c = 46 then has_class d rest n
          else if c = 35 then attr_is d ''id'' rest n
          else False)"

definition example_env :: env where
  "example_env = \<lparr>sel_matches = simple_sel, parseFloat = (\<lambda>_. NaN), regexp = (\<lambda>_. None)\<rparr>"

definition no_options :: field_options where
  "no_options =
     \<lparr>errorContainer = Absent, errorClass = None, validClass = None, invalidClass = None\<rparr>"

definition elem :: "string \<Rightarrow> nid list \<Rightarrow> node" where
  "elem t kids = (new_node t)\<lparr>childNodes := kids\<rparr>"

definition text_input :: "(string \<rightharpoonup> jstring) \<Rightarrow> jstring \<Rightarrow> node" where
  "text_input a val =
     (new_node ''input'')\<lparr>attrs := a, el_type := ''text'', el_value := VStr val,
                          el_files := VNull\<rparr>"

definition email_key :: jstring where
  "email_key = ascii ''email''"

text \<open>A form holding one empty text input named \<open>email\<close> and nothing else.\<close>

definition dom_a :: dom where
  "dom_a = [elem ''#document'' [1], elem ''form'' [2], text_input [''name'' \<mapsto> email_key] []]"

definition engine_a :: validator where
  "engine_a =
     \<lparr>element = 2, form = 1, rules = [\<lparr>rtype = Required, error = msg_required\<rparr>],
      config_fieldName = email_key, cur_value = VStr []\<rparr>"

definition state_a :: v_state where
  "state_a =
     \<lparr>formc = \<lparr>formElement = 1, inputElements = [(email_key, 2)],
               labels = [(email_key, None)], errorContainers = [],
               fc_options = no_options\<lparr>errorContainer := Str (ascii ''.error-message'')\<rparr>\<rparr>,
      validators = [(email_key, engine_a)],
      options = no_options\<rparr>"

definition error_div :: "jstring \<Rightarrow> nid \<Rightarrow> node" where
  "error_div name txt =
     (new_node ''div'')\<lparr>attrs := [''data-field'' \<mapsto> name], classList := [error_message_class],
                        childNodes := [txt], display := ascii ''block''\<rparr>"

definition text_node :: "jstring \<Rightarrow> node" where
  "text_node s = (new_node ''#text'')\<lparr>nodeValue := s\<rparr>"

definition result_a :: validation_result where
  "result_a =
     \<lparr>isValid = False,
      errors = \<lparr>own = [email_key \<mapsto> Some msg_required], proto_null = False\<rparr>\<rparr>"

definition dom_a1 :: dom where
  "dom_a1 =
     [elem ''#document'' [1], elem ''form'' [2, 3],
      (text_input [''name'' \<mapsto> email_key] [])\<lparr>classList := [ascii ''error'']\<rparr>,
      error_div email_key 4, text_node msg_required]"

definition dom_a2 :: dom where
  "dom_a2 =
     [elem ''#document'' [1], elem ''form'' [2, 3, 5],
      (text_input [''name'' \<mapsto> email_key] [])\<lparr>classList := [ascii ''error'']\<rparr>,
      error_div email_key 4, text_node msg_required,
      error_div email_key 6, text_node msg_required]"

text \<open>The same input under two rules whose first message is the empty string.\<close>

definition engine_e :: validator where
  "engine_e =
     \<lparr>element = 2, form = 1,
      rules = [\<lparr>rtype = Required, error = []\<rparr>, \<lparr>rtype = Min (Fin 3), error = msg_min\<rparr>],
      config_fieldName = email_key, cur_value = VStr []\<rparr>"

text \<open>The input holding \<open>ab\<close>, under \<open>required\<close>, \<open>min(3)\<close> and \<open>email\<close>.\<close>

definition dom_b :: dom where
  "dom_b =
     [elem ''#document'' [1], elem ''form'' [2],
      text_input [''name'' \<mapsto> email_key] (ascii ''ab'')]"

definition engine_b :: validator where
  "engine_b =
     \<lparr>element = 2, form = 1,
      rules = [\<lparr>rtype = Required, error = msg_required\<rparr>,
               \<lparr>rtype = Min (Fin 3), error = msg_min\<rparr>,
               \<lparr>rtype = Email, error = msg_email\<rparr>],
      config_fieldName = email_key, cur_value = VStr []\<rparr>"

text \<open>A file input with two files selected, under the \<open>array\<close> rule.\<close>

definition dom_f :: dom where
  "dom_f =
     [elem ''#document'' [1], elem ''form'' [2],
      (new_node ''input'')\<lparr>attrs := [''name'' \<mapsto> ascii ''files'', ''type'' \<mapsto> ascii ''file''],
                           el_type := ''file'', el_value := VStr [], el_files := VFileList 2\<rparr>]"

definition engine_f :: validator where
  "engine_f =
     \<lparr>element = 2, form = 1, rules = [\<lparr>rtype = IsArray, error = msg_array\<rparr>],
      config_fieldName = ascii ''files'', cur_value = VFileList 2\<rparr>"

text \<open>A required text input holding \<open>John\<close>.\<close>

definition dom_r :: dom where
  "dom_r =
     [elem ''#document'' [1], elem ''form'' [2],
      (text_input [''name'' \<mapsto> email_key] (ascii ''John''))\<lparr>el_required := True\<rparr>]"

text \<open>
  A wrapper holding an error element of class \<open>msg-error\<close> followed by the input
  \<open>age\<close>; the options name \<open>.msg-error\<close> as the error container.
\<close>

definition age_key :: jstring where
  "age_key = ascii ''age''"

definition msg_error_selector :: jstring where
  "msg_error_selector = ascii ''.msg-error''"

definition dom_s :: dom where
  "dom_s =
     [elem ''#document'' [1], elem ''form'' [2], elem ''div'' [3, 4],
      (new_node ''span'')\<lparr>classList := [ascii ''msg-error'']\<rparr>,
      text_input [''name'' \<mapsto> age_key] []]"

definition options_s :: field_options where
  "options_s = no_options\<lparr>errorContainer := Str msg_error_selector\<rparr>"

text \<open>
  Three inputs with a field-name marker: two carry the marker \<open>a\<close>, under the names
  \<open>x\<close> and \<open>a\<close>, and the third carries the empty marker under the name \<open>z\<close>.
\<close>

definition dom_m :: dom where
  "dom_m =
     [elem ''#document'' [1], elem ''form'' [2, 3, 4],
      text_input [''field-name'' \<mapsto> ascii ''a'', ''name'' \<mapsto> ascii ''x''] [],
      text_input [''field-name'' \<mapsto> ascii ''a'', ''name'' \<mapsto> ascii ''a''] [],
      text_input [''field-name'' \<mapsto> [], ''name'' \<mapsto> ascii ''z''] []]"

text \<open>
  An input with marker \<open>user-email\<close>, name \<open>email\<close> and id \<open>email\<close>; an input
  named \<open>user-email\<close> with id \<open>nick\<close>; an input named \<open>city\<close> with id \<open>c1\<close>.
\<close>

definition user_email_key :: jstring where
  "user_email_key = ascii ''user-email''"

definition nick_key :: jstring where
  "nick_key = ascii ''nick''"

definition city_key :: jstring where
  "city_key = ascii ''city''"

definition c1_key :: jstring where
  "c1_key = ascii ''c1''"

definition dom_p :: dom where
  "dom_p =
     [elem ''#document'' [1], elem ''form'' [2, 3, 4],
      text_input [''field-name'' \<mapsto> user_email_key, ''name'' \<mapsto> email_key,
                  ''id'' \<mapsto> email_key] [],
      text_input [''name'' \<mapsto> user_email_key, ''id'' \<mapsto> nick_key] [],
      text_input [''name'' \<mapsto> city_key, ''id'' \<mapsto> c1_key] []]"

text \<open>
  Two empty inputs \<open>a\<close> and \<open>b\<close> and, outside the form, an element with id \<open>g\<close>
  that the options name as the global error container.
\<close>

definition a_key :: jstring where
  "a_key = ascii ''a''"

definition b_key :: jstring where
  "b_key = ascii ''b''"



definition engine_g :: "jstring \<Rightarrow> nid \<Rightarrow> validator" where
  "engine_g name el =
     \<lparr>element = el, form = 1, rules = [\<lparr>rtype = Required, error = msg_required\<rparr>],
      config_fieldName = name, cur_value = VStr []\<rparr>"



text \<open>
  An input \<open>a\<close> followed by a wrapper that holds an input \<open>b\<close> and an error element.
  With the default options the registry gives the wrapper to \<open>a\<close> as its error
  container, and the error element to \<open>b\<close>.
\<close>

definition dom_n :: dom where
  "dom_n =
     [elem ''#document'' [1], elem ''form'' [2, 3],
      text_input [''name'' \<mapsto> a_key] [], elem ''div'' [4, 5],
      text_input [''name'' \<mapsto> b_key] [],
      (new_node ''span'')\<lparr>classList := [error_message_class]\<rparr>]"

definition state_n :: v_state where
  "state_n =
     \<lparr>formc = \<lparr>formElement = 1, inputElements = [(a_key, 2), (b_key, 4)],
               labels = [(a_key, None), (b_key, None)],
               errorContainers = [(a_key, 3), (b_key, 5)],
               fc_options = no_options\<lparr>errorContainer := Str (ascii ''.error-message'')\<rparr>\<rparr>,
      validators = [(a_key, engine_g a_key 2), (b_key, engine_g b_key 4)],
      options = no_options\<rparr>"

definition dom_n1 :: dom where
  "dom_n1 =
     [elem ''#document'' [1], elem ''form'' [2, 3],
      text_input [''name'' \<mapsto> a_key] [], elem ''div'' [4, 5],
      (text_input [''name'' \<mapsto> b_key] [])\<lparr>classList := [ascii ''error'']\<rparr>,
      (new_node ''span'')\<lparr>classList := [error_message_class], childNodes := [6],
                          display := ascii ''block''\<rparr>,
      text_node msg_required]"

definition dom_n2 :: dom where
  "dom_n2 =
     [elem ''#document'' [1], elem ''form'' [2, 3],
      (text_input [''name'' \<mapsto> a_key] [])\<lparr>classList := [ascii ''error'']\<rparr>,
      (elem ''div'' [6])\<lparr>display := ascii ''block''\<rparr>,
      text_input [''name'' \<mapsto> b_key] [],
      (new_node ''span'')\<lparr>classList := [error_message_class]\<rparr>,
      text_node msg_required]"





section \<open>Invariants and frames\<close>

text \<open>
  The notions the properties below are stated with.

  For the registry: \<open>fields_upto d frm xs\<close> is the table of \<open>collectFields\<close> as it
  stands when the first pass is over and the second pass has gone through the controls
  \<open>xs\<close>. \<open>keys_sound\<close> is the invariant of both passes: every key is a non-empty
  string, the marker of its control if the control carries one, else the \<open>name\<close> or the
  \<open>id\<close> of the control.
\<close>

definition fields_upto :: "dom \<Rightarrow> nid \<Rightarrow> nid list \<Rightarrow> (jstring \<times> nid) list" where
  "fields_upto d frm xs =
     foldl (register_plain d)
       (foldl (register_marked d) [] (querySelectorAll d frm (sel_field_name d))) xs"

definition keys_sound :: "dom \<Rightarrow> (jstring \<times> nid) list \<Rightarrow> bool" where
  "keys_sound d m =
     (\<forall>(k, el) \<in> set m.
        k \<noteq> []
        \<and> (case getAttribute d el ''field-name'' of
             Some f \<Rightarrow> k = f
           | None \<Rightarrow> getAttribute d el ''name'' = Some k \<or> getAttribute d el ''id'' = Some k))"



inductive_set subtree :: "dom \<Rightarrow> nid \<Rightarrow> nid set" for d :: dom and m :: nid where
  top: "m \<in> subtree d m"
| child: "k \<in> subtree d m \<Longrightarrow> c \<in> set (child_nodes d k) \<Longrightarrow> c \<in> subtree d m"






definition show_classes :: "v_state \<Rightarrow> nid \<Rightarrow> dom \<Rightarrow> dom" where
  "show_classes s el d =
     classList_add el (error_class (options s))
       ((case invalidClass (options s) of
           None \<Rightarrow> (\<lambda>x. x)
         | Some c \<Rightarrow> if c \<noteq> [] then classList_add el c else (\<lambda>x. x))
          ((case validClass (options s) of
              None \<Rightarrow> (\<lambda>x. x)
            | Some c \<Rightarrow> if c \<noteq> [] then classList_remove el c else (\<lambda>x. x)) d))"

definition clear_classes :: "v_state \<Rightarrow> nid \<Rightarrow> dom \<Rightarrow> dom" where
  "clear_classes s el d =
     (case validClass (options s) of
        None \<Rightarrow> classList_add el (ascii ''valid'')
      | Some c \<Rightarrow> if c \<noteq> [] then classList_add el c else classList_add el (ascii ''valid''))
       ((case invalidClass (options s) of
           None \<Rightarrow> (\<lambda>x. x)
         | Some c \<Rightarrow> if c \<noteq> [] then classList_remove el c else (\<lambda>x. x))
          (classList_remove el (error_class (options s)) d))"

section \<open>Properties\<close>

subsection \<open>Evaluating the model on the example documents\<close>

lemmas dom_defs =
  node_of_def is_element_def child_nodes_def parentNode_def parentElement_def
  following_siblings_def nextSibling_def nextElementSibling_def querySelectorAll_def
  querySelector_def closest_def getAttribute_def hasAttribute_def tag_is_def attr_is_def
  has_class_def ascii_lower_def type_is_def sel_field_name_def sel_form_elements_def sel_label_for_def
  sel_checked_radio_def sel_name_def sel_error_message_def error_message_class_def
  upd_def classList_add_def classList_remove_def set_textContent_def set_display_def
  set_className_def setAttribute_def new_node_def createElement_def appendChild_def
  insertBefore_def document_def ascii_def text_content_def textContent_def

lemmas registry_defs =
  register_marked_def unclaimed_def register_plain_def collectFields_def resolve_label_def
  starts_with_hash_def configured_container_def default_container_def
  resolve_errorContainer_def merge_options_def new_FormConnector_def fc_field_def
  getLabel_def getErrorContainer_def List.map_filter_def

lemmas engine_defs =
  getValue_def push_def required_def checkRule_def refresh_def validate_def
  validate_checked_def has_validity_def truthy_def or_default_def template_str_def
  string_capable_def loadInputConstraints_def loadTextAreaConstraints_def
  loadConstraintValidation_def new_Validator_def

lemmas v_defs =
  new_V_def V_field_def on_engine_def error_class_def place_container_def V_showError_def
  V_clearError_def present_def V_validate_def V_validateField_def proto_key_def
  empty_errors_def errors_set_def

lemmas fixture_defs =
  simple_sel_def example_env_def no_options_def elem_def text_input_def email_key_def
  error_div_def text_node_def

lemma msg_required_nonempty: "msg_required \<noteq> []"
  by (simp add: msg_required_def)

lemma msg_min_nonempty: "msg_min \<noteq> []"
  by (simp add: msg_min_def)

subsection \<open>Short-circuit evaluation of the rule chain\<close>

lemma run_rules_first_failure:
  assumes "\<forall>r \<in> set pre. \<not> truthy (checkRule env d v r)"
      and "truthy (checkRule env d v a)"
  shows "run_rules env d v (pre @ a # post) = (pre @ [a], checkRule env d v a)"
  using assms by (induction pre) (simp_all add: Let_def)

lemma rules_refresh: "rules (refresh d v) = rules v"
  by (simp add: refresh_def)

lemma cur_value_refresh: "cur_value (refresh d v) = getValue d v"
  by (simp add: refresh_def)

lemma validate_snd: "snd (validate env d v) = refresh d v"
  by (simp add: validate_def Let_def split: option.splits)

text \<open>
  C1 (amended). \<open>validate\<close> refreshes the cached value from the control and then checks
  the rules in insertion order. If every rule before \<open>a\<close> yields no error or the empty
  string, and \<open>a\<close> yields a non-empty message \<open>m\<close> on the refreshed value, then
  \<open>validate\<close> returns \<open>m\<close>, and the rules checked are exactly those up to and
  including \<open>a\<close>: no rule after \<open>a\<close> is evaluated, whatever it would yield.
\<close>
theorem validate_first_failure:
  assumes "rules v = pre @ a # post"
      and "\<forall>r \<in> set pre. \<not> truthy (checkRule env d (refresh d v) r)"
      and "checkRule env d (refresh d v) a = Some m"
      and "m \<noteq> []"
  shows "fst (validate env d v) = Some m
         \<and> validate_checked env d v = pre @ [a]
         \<and> cur_value (snd (validate env d v)) = getValue d v"
proof -
  have t: "truthy (checkRule env d (refresh d v) a)"
    using assms(3,4) by (simp add: truthy_def)
  have run: "run_rules env d (refresh d v) (rules v) = (pre @ [a], Some m)"
    using run_rules_first_failure [OF assms(2) t, of post] assms(1,3) by simp
  have "fst (validate env d v) = Some m"
    using run assms(4) by (simp add: validate_def Let_def rules_refresh truthy_def)
  moreover have "validate_checked env d v = pre @ [a]"
    using run by (simp add: validate_checked_def)
  ultimately show ?thesis
    by (simp add: validate_snd cur_value_refresh)
qed

lemma getValue_a: "getValue dom_a v = VStr []" if "element v = 2" for v
  using that by (simp add: getValue_def dom_defs fixture_defs dom_a_def)

text \<open>
  C1 as stated fails when the first failing rule carries the empty message: on the empty
  input both \<open>required('')\<close> and \<open>min(3)\<close> fail, and \<open>validate\<close> returns the
  message of the second rule.
\<close>
theorem empty_message_counterexample:
  "checkRule example_env dom_a (refresh dom_a engine_e) \<lparr>rtype = Required, error = []\<rparr> = Some []
   \<and> checkRule example_env dom_a (refresh dom_a engine_e) \<lparr>rtype = Min (Fin 3), error = msg_min\<rparr>
       = Some msg_min
   \<and> rules engine_e = [\<lparr>rtype = Required, error = []\<rparr>, \<lparr>rtype = Min (Fin 3), error = msg_min\<rparr>]
   \<and> fst (validate example_env dom_a engine_e) = Some msg_min
   \<and> Some msg_min \<noteq> Some []"
proof -
  have el: "element engine_e = 2" by (simp add: engine_e_def)
  have v: "refresh dom_a engine_e = engine_e"
    by (simp add: refresh_def getValue_a [OF el]) (simp add: engine_e_def)
  have a: "checkRule example_env dom_a engine_e \<lparr>rtype = Required, error = []\<rparr> = Some []"
    by (simp add: checkRule_def engine_e_def)
  have b: "checkRule example_env dom_a engine_e \<lparr>rtype = Min (Fin 3), error = msg_min\<rparr> = Some msg_min"
    by (simp add: checkRule_def engine_e_def)
  have r: "rules engine_e = [\<lparr>rtype = Required, error = []\<rparr>, \<lparr>rtype = Min (Fin 3), error = msg_min\<rparr>]"
    by (simp add: engine_e_def)
  have "run_rules example_env dom_a engine_e (rules engine_e)
          = ([\<lparr>rtype = Required, error = []\<rparr>, \<lparr>rtype = Min (Fin 3), error = msg_min\<rparr>], Some msg_min)"
    by (simp add: r a b truthy_def msg_min_nonempty)
  then have "fst (validate example_env dom_a engine_e) = Some msg_min"
    by (simp add: validate_def v truthy_def msg_min_nonempty)
  then show ?thesis
    using a b r msg_min_nonempty by (simp add: v)
qed

lemma getValue_b: "getValue dom_b v = VStr (ascii ''ab'')" if "element v = 2" for v
  using that by (simp add: getValue_def dom_defs fixture_defs dom_b_def)

text \<open>
  The input holds \<open>ab\<close> under \<open>required\<close>, \<open>min(3)\<close>, \<open>email\<close>: the second
  and third rule both fail, the message of the second is returned, and the third is not
  checked.
\<close>
theorem validate_first_failure_witness:
  "rules engine_b = [\<lparr>rtype = Required, error = msg_required\<rparr>]
        @ \<lparr>rtype = Min (Fin 3), error = msg_min\<rparr> # [\<lparr>rtype = Email, error = msg_email\<rparr>]
   \<and> \<not> truthy (checkRule example_env dom_b (refresh dom_b engine_b)
                   \<lparr>rtype = Required, error = msg_required\<rparr>)
   \<and> checkRule example_env dom_b (refresh dom_b engine_b) \<lparr>rtype = Min (Fin 3), error = msg_min\<rparr>
       = Some msg_min
   \<and> checkRule example_env dom_b (refresh dom_b engine_b) \<lparr>rtype = Email, error = msg_email\<rparr>
       = Some msg_email
   \<and> msg_min \<noteq> []
   \<and> fst (validate example_env dom_b engine_b) = Some msg_min
   \<and> validate_checked example_env dom_b engine_b
       = [\<lparr>rtype = Required, error = msg_required\<rparr>, \<lparr>rtype = Min (Fin 3), error = msg_min\<rparr>]
   \<and> cur_value (snd (validate example_env dom_b engine_b)) = VStr (ascii ''ab'')"
proof -
  have el: "element engine_b = 2" by (simp add: engine_b_def)
  have cv: "cur_value (refresh dom_b engine_b) = VStr (ascii ''ab'')"
    by (simp add: refresh_def getValue_b [OF el])
  have h1: "rules engine_b = [\<lparr>rtype = Required, error = msg_required\<rparr>]
        @ \<lparr>rtype = Min (Fin 3), error = msg_min\<rparr> # [\<lparr>rtype = Email, error = msg_email\<rparr>]"
    by (simp add: engine_b_def)
  have h2: "\<forall>r \<in> set [\<lparr>rtype = Required, error = msg_required\<rparr>].
         \<not> truthy (checkRule example_env dom_b (refresh dom_b engine_b) r)"
    by (simp add: checkRule_def cv truthy_def ascii_def)
  have h3: "checkRule example_env dom_b (refresh dom_b engine_b) \<lparr>rtype = Min (Fin 3), error = msg_min\<rparr>
       = Some msg_min"
    by (simp add: checkRule_def cv ascii_def)
  have h4: "msg_min \<noteq> []" by (rule msg_min_nonempty)
  have h5: "checkRule example_env dom_b (refresh dom_b engine_b) \<lparr>rtype = Email, error = msg_email\<rparr>
       = Some msg_email"
    by (simp add: checkRule_def cv ascii_def emailRegex_test_def)
  have g: "getValue dom_b engine_b = VStr (ascii ''ab'')" by (rule getValue_b [OF el])
  show ?thesis
    using validate_first_failure [OF h1 h2 h3 h4] h1 h2 h3 h4 h5 g by simp
qed

subsection \<open>The array rule\<close>

text \<open>
  C2. The rule engine's \<open>isArray\<close> check accepts true arrays only: on a file input
  holding a file list of two files the \<open>array\<close> rule fails, and so it does on a plain
  object \<open>{length: 2}\<close>, although both expose a numeric length.
\<close>
theorem array_rule_rejects_file_list:
  "getValue dom_f engine_f = VFileList 2
   \<and> checkRule example_env dom_f engine_f \<lparr>rtype = IsArray, error = msg_array\<rparr> = Some msg_array
   \<and> fst (validate example_env dom_f engine_f) = Some msg_array
   \<and> checkRule example_env dom_f (engine_f\<lparr>cur_value := VLenObj 2\<rparr>)
        \<lparr>rtype = IsArray, error = msg_array\<rparr> = Some msg_array"
proof -
  have g: "getValue dom_f engine_f = VFileList 2"
    by (simp add: getValue_def dom_defs fixture_defs dom_f_def engine_f_def)
  have v: "refresh dom_f engine_f = engine_f"
    by (simp add: refresh_def g) (simp add: engine_f_def)
  have c: "checkRule example_env dom_f engine_f \<lparr>rtype = IsArray, error = msg_array\<rparr> = Some msg_array"
    by (simp add: checkRule_def engine_f_def)
  have ne: "msg_array \<noteq> []" by (simp add: msg_array_def)
  have r: "rules engine_f = [\<lparr>rtype = IsArray, error = msg_array\<rparr>]" by (simp add: engine_f_def)
  have "fst (validate example_env dom_f engine_f) = Some msg_array"
    by (simp add: validate_def v r c truthy_def ne)
  moreover have "checkRule example_env dom_f (engine_f\<lparr>cur_value := VLenObj 2\<rparr>)
        \<lparr>rtype = IsArray, error = msg_array\<rparr> = Some msg_array"
    by (simp add: checkRule_def)
  ultimately show ?thesis using g c by simp
qed

subsection \<open>Implicit rules\<close>

text \<open>
  C3. For a required text input the constructor derives the \<open>Required\<close> rule twice:
  once in \<open>loadInputConstraints\<close> and once more in \<open>loadConstraintValidation\<close>.
\<close>
theorem required_rule_loaded_twice:
  "new_Validator example_env dom_r 2 1 email_key
     = Inr \<lparr>element = 2, form = 1,
            rules = [\<lparr>rtype = Required, error = msg_required\<rparr>,
                     \<lparr>rtype = Required, error = msg_required\<rparr>],
            config_fieldName = email_key, cur_value = VStr (ascii ''John'')\<rparr>"
  by (simp add: engine_defs dom_defs fixture_defs dom_r_def)

subsection \<open>Repeated validation passes\<close>

lemma state_a_built:
  "on_engine email_key (required msg_required)
     (snd (V_field example_env dom_a email_key (new_V example_env dom_a 1 no_options)))
   = state_a"
  by (simp add: v_defs registry_defs engine_defs dom_defs fixture_defs dom_a_def state_a_def
      engine_a_def)

lemma validate_a: "validate example_env dom_a engine_a = (Some msg_required, engine_a)"
  by (simp add: engine_defs dom_defs fixture_defs dom_a_def engine_a_def msg_required_def)

lemma validate_a1: "validate example_env dom_a1 engine_a = (Some msg_required, engine_a)"
  by (simp add: engine_defs dom_defs fixture_defs dom_a1_def engine_a_def msg_required_def)

lemma showError_a: "V_showError example_env state_a email_key msg_required dom_a = dom_a1"
  by (simp add: v_defs registry_defs dom_defs fixture_defs dom_a_def dom_a1_def state_a_def
      msg_required_nonempty)

lemma showError_a1: "V_showError example_env state_a email_key msg_required dom_a1 = dom_a2"
  by (simp add: v_defs registry_defs dom_defs fixture_defs dom_a1_def dom_a2_def state_a_def
      msg_required_nonempty)

lemma email_not_proto: "email_key \<noteq> proto_key"
  by (simp add: email_key_def proto_key_def ascii_def)

lemma V_validate_a: "V_validate example_env dom_a state_a = (result_a, dom_a1, state_a)"
proof -
  have "validators state_a = [(email_key, engine_a)]" by (simp add: state_a_def)
  then show ?thesis
    by (simp add: V_validate_def validate_a present_def showError_a truthy_def
        msg_required_nonempty result_a_def errors_set_def empty_errors_def email_not_proto)
qed

lemma V_validate_a1: "V_validate example_env dom_a1 state_a = (result_a, dom_a2, state_a)"
proof -
  have "validators state_a = [(email_key, engine_a)]" by (simp add: state_a_def)
  then show ?thesis
    by (simp add: V_validate_def validate_a1 present_def showError_a1 truthy_def
        msg_required_nonempty result_a_def errors_set_def empty_errors_def email_not_proto)
qed

lemma containers_a1: "querySelectorAll dom_a1 1 (sel_error_message dom_a1) = [3]"
  by (simp add: dom_defs fixture_defs dom_a1_def)

lemma containers_a2: "querySelectorAll dom_a2 1 (sel_error_message dom_a2) = [3, 5]"
  by (simp add: dom_defs fixture_defs dom_a2_def)

text \<open>
  C4. A form with one empty input and no error container, and \<open>required\<close> attached to
  the field. Two successive \<open>validate\<close> calls return the same result, but each creates
  an error container: the form holds one after the first call and two after the second.
\<close>
theorem validate_twice_duplicates_container:
  "on_engine email_key (required msg_required)
     (snd (V_field example_env dom_a email_key (new_V example_env dom_a 1 no_options)))
     = state_a
   \<and> V_validate example_env dom_a state_a = (result_a, dom_a1, state_a)
   \<and> V_validate example_env dom_a1 state_a = (result_a, dom_a2, state_a)
   \<and> querySelectorAll dom_a1 1 (sel_error_message dom_a1) = [3]
   \<and> querySelectorAll dom_a2 1 (sel_error_message dom_a2) = [3, 5]
   \<and> dom_a2 \<noteq> dom_a1"
proof -
  have "length dom_a2 \<noteq> length dom_a1" by (simp add: dom_a1_def dom_a2_def)
  then have "dom_a2 \<noteq> dom_a1" by auto
  with state_a_built V_validate_a V_validate_a1 containers_a1 containers_a2
  show ?thesis by blast
qed

subsection \<open>Resolution of the error container\<close>

lemma registry_s:
  "new_FormConnector example_env dom_s 1 options_s
     = \<lparr>formElement = 1, inputElements = [(age_key, 4)], labels = [(age_key, None)],
        errorContainers = [], fc_options = options_s\<rparr>"
  by (simp add: registry_defs dom_defs fixture_defs dom_s_def options_s_def age_key_def
      msg_error_selector_def)

text \<open>
  C5. With the selector \<open>.msg-error\<close> configured and a matching element placed before
  the control inside the control's parent, no ancestor matches, the parent has a matching
  descendant, and yet the registry resolves no error container for the field: the lookups
  only decide whether the next element sibling is taken.
\<close>
theorem configured_selector_misses_parent_descendant:
  "fc_field (new_FormConnector example_env dom_s 1 options_s) age_key = Some 4
   \<and> closest dom_s 4 (sel_matches example_env msg_error_selector dom_s) = None
   \<and> parentElement dom_s 4 = Some 2
   \<and> querySelector dom_s 2 (sel_matches example_env msg_error_selector dom_s) = Some 3
   \<and> getErrorContainer example_env dom_s (new_FormConnector example_env dom_s 1 options_s) age_key
       = None"
proof -
  have a: "fc_field (new_FormConnector example_env dom_s 1 options_s) age_key = Some 4"
    unfolding registry_s fc_field_def by (simp add: age_key_def ascii_def)
  have b: "closest dom_s 4 (sel_matches example_env msg_error_selector dom_s) = None"
    by (simp add: dom_defs fixture_defs dom_s_def msg_error_selector_def)
  have c: "parentElement dom_s 4 = Some 2"
    by (simp add: dom_defs fixture_defs dom_s_def)
  have d: "querySelector dom_s 2 (sel_matches example_env msg_error_selector dom_s) = Some 3"
    by (simp add: dom_defs fixture_defs dom_s_def msg_error_selector_def)
  have e: "getErrorContainer example_env dom_s (new_FormConnector example_env dom_s 1 options_s) age_key
       = None"
    unfolding registry_s getErrorContainer_def
    by (simp add: options_s_def msg_error_selector_def starts_with_hash_def ascii_def)
  from a b c d e show ?thesis by blast
qed

subsection \<open>Lookup errors\<close>

lemma field_existing:
  "fc_field (formc s) name = Some el \<Longrightarrow> map_of (validators s) name = Some v
     \<Longrightarrow> V_field env d name s = (Inr v, s)"
  by (simp add: V_field_def)

lemma field_result:
  assumes "V_field env d name s = (Inr v, s')"
  shows "map_of (validators s') name = Some v \<and> formc s' = formc s
         \<and> (distinct (map fst (validators s)) \<longrightarrow> distinct (map fst (validators s')))"
  using assms
  by (auto simp: V_field_def update_conv' distinct_update split: option.splits sum.splits)

text \<open>
  C6. \<open>field\<close> throws the lookup error exactly when the registry does not resolve the
  name, and \<open>validateField\<close> throws it exactly when no engine is registered under the
  name; in both cases the state (and the document) is returned unchanged. A fresh
  orchestrator has no engine, and a successful \<open>field\<close> call registers one.
\<close>
theorem lookup_errors:
  "((\<exists>n. fst (V_field env d name s) = Inl (FieldNotFound n)) = (fc_field (formc s) name = None))
   \<and> (fc_field (formc s) name = None \<longrightarrow> V_field env d name s = (Inl (FieldNotFound name), s))
   \<and> ((\<exists>n. fst (V_validateField env d name s) = Inl (ValidatorNotFound n))
        = (map_of (validators s) name = None))
   \<and> (map_of (validators s) name = None
        \<longrightarrow> V_validateField env d name s = (Inl (ValidatorNotFound name), d, s))
   \<and> V_validateField env d name (new_V env d0 frm opts)
        = (Inl (ValidatorNotFound name), d, new_V env d0 frm opts)
   \<and> (\<forall>v s'. V_field env d name s = (Inr v, s') \<longrightarrow> map_of (validators s') name = Some v)"
proof -
  have ctor: "new_Validator env d el frm nm \<noteq> Inl (FieldNotFound n)" for el frm nm n
    by (auto simp: new_Validator_def loadConstraintValidation_def loadInputConstraints_def
        Let_def split: option.splits sum.splits if_splits)
  have main: "((\<exists>n. fst (V_field env d name s) = Inl (FieldNotFound n)) = (fc_field (formc s) name = None))
   \<and> (fc_field (formc s) name = None \<longrightarrow> V_field env d name s = (Inl (FieldNotFound name), s))
   \<and> ((\<exists>n. fst (V_validateField env d name s) = Inl (ValidatorNotFound n))
        = (map_of (validators s) name = None))
   \<and> (map_of (validators s) name = None
        \<longrightarrow> V_validateField env d name s = (Inl (ValidatorNotFound name), d, s))"
    using ctor
    by (auto simp: V_field_def V_validateField_def split: option.splits sum.splits prod.splits)
  have fresh: "V_validateField env d name (new_V env d0 frm opts)
        = (Inl (ValidatorNotFound name), d, new_V env d0 frm opts)"
    by (simp add: V_validateField_def new_V_def)
  have after: "\<forall>v s'. V_field env d name s = (Inr v, s') \<longrightarrow> map_of (validators s') name = Some v"
    using field_result by blast
  from main fresh after show ?thesis by blast
qed

text \<open>
  On the form with the one field \<open>email\<close>: \<open>unknown\<close> throws in both operations and
  leaves the state alone; \<open>email\<close> throws no lookup error in either.
\<close>
theorem lookup_errors_witness:
  "fc_field (formc state_a) (ascii ''unknown'') = None
   \<and> V_field example_env dom_a (ascii ''unknown'') state_a
       = (Inl (FieldNotFound (ascii ''unknown'')), state_a)
   \<and> map_of (validators state_a) (ascii ''unknown'') = None
   \<and> V_validateField example_env dom_a (ascii ''unknown'') state_a
       = (Inl (ValidatorNotFound (ascii ''unknown'')), dom_a, state_a)
   \<and> fc_field (formc state_a) email_key \<noteq> None
   \<and> (\<forall>n. fst (V_field example_env dom_a email_key state_a) \<noteq> Inl (FieldNotFound n))
   \<and> map_of (validators state_a) email_key \<noteq> None
   \<and> (\<forall>n. fst (V_validateField example_env dom_a email_key state_a) \<noteq> Inl (ValidatorNotFound n))"
proof -
  have h1: "fc_field (formc state_a) (ascii ''unknown'') = None"
    by (simp add: fc_field_def state_a_def email_key_def ascii_def)
  have h2: "map_of (validators state_a) (ascii ''unknown'') = None"
    by (simp add: state_a_def email_key_def ascii_def)
  have h3: "fc_field (formc state_a) email_key \<noteq> None"
    by (simp add: fc_field_def state_a_def)
  have h4: "map_of (validators state_a) email_key \<noteq> None"
    by (simp add: state_a_def)
  note u = lookup_errors [of example_env dom_a "ascii ''unknown''" state_a dom_a 1 no_options]
  note e = lookup_errors [of example_env dom_a email_key state_a dom_a 1 no_options]
  have u1: "V_field example_env dom_a (ascii ''unknown'') state_a
       = (Inl (FieldNotFound (ascii ''unknown'')), state_a)"
    using u h1 by blast
  have u2: "V_validateField example_env dom_a (ascii ''unknown'') state_a
       = (Inl (ValidatorNotFound (ascii ''unknown'')), dom_a, state_a)"
    using u h2 by blast
  have e1: "\<forall>n. fst (V_field example_env dom_a email_key state_a) \<noteq> Inl (FieldNotFound n)"
    using e h3 by blast
  have e2: "\<forall>n. fst (V_validateField example_env dom_a email_key state_a)
              \<noteq> Inl (ValidatorNotFound n)"
    using e h4 by blast
  from h1 u1 h2 u2 h3 e1 h4 e2 show ?thesis by blast
qed

subsection \<open>Priority of the field-name marker\<close>

lemma set_update_subset: "set (AList.update k v al) \<subseteq> insert (k, v) (set al)"
  by (induction al) auto

lemma keys_sound_update:
  assumes "keys_sound d m" and "k \<noteq> []"
      and "case getAttribute d el ''field-name'' of
             Some f \<Rightarrow> k = f
           | None \<Rightarrow> getAttribute d el ''name'' = Some k \<or> getAttribute d el ''id'' = Some k"
  shows "keys_sound d (AList.update k el m)"
  unfolding keys_sound_def
proof (intro ballI)
  fix p assume "p \<in> set (AList.update k el m)"
  then have "p = (k, el) \<or> p \<in> set m"
    using set_update_subset [of k el m] by auto
  then show "case p of (k', el') \<Rightarrow>
        k' \<noteq> []
        \<and> (case getAttribute d el' ''field-name'' of
             Some f \<Rightarrow> k' = f
           | None \<Rightarrow> getAttribute d el' ''name'' = Some k' \<or> getAttribute d el' ''id'' = Some k')"
    using assms by (auto simp: keys_sound_def)
qed

lemma keys_sound_marked: "keys_sound d m \<Longrightarrow> keys_sound d (register_marked d m el)"
  by (simp add: register_marked_def keys_sound_update split: option.splits)

lemma unclaimed_Some: "unclaimed m a = Some k \<longleftrightarrow> a = Some k \<and> k \<noteq> [] \<and> map_of m k = None"
  by (auto simp: unclaimed_def split: option.splits)

lemma keys_sound_plain: "keys_sound d m \<Longrightarrow> keys_sound d (register_plain d m el)"
  by (auto simp: register_plain_def hasAttribute_def unclaimed_Some intro!: keys_sound_update
      split: option.splits)

lemma keys_sound_foldl_marked:
  "keys_sound d m \<Longrightarrow> keys_sound d (foldl (register_marked d) m xs)"
  by (induction xs arbitrary: m) (simp_all add: keys_sound_marked)

lemma keys_sound_foldl_plain:
  "keys_sound d m \<Longrightarrow> keys_sound d (foldl (register_plain d) m xs)"
  by (induction xs arbitrary: m) (simp_all add: keys_sound_plain)

lemma keys_sound_collectFields: "keys_sound d (collectFields d frm)"
proof -
  have "keys_sound d []" by (simp add: keys_sound_def)
  then show ?thesis
    unfolding collectFields_def
    by (intro keys_sound_foldl_plain keys_sound_foldl_marked)
qed

lemma register_marked_same:
  "getAttribute d x ''field-name'' = Some f \<Longrightarrow> f \<noteq> []
     \<Longrightarrow> map_of (register_marked d m x) f = Some x"
  by (simp add: register_marked_def update_conv')

lemma register_marked_other:
  "getAttribute d x ''field-name'' \<noteq> Some f \<Longrightarrow> map_of (register_marked d m x) f = map_of m f"
  by (auto simp: register_marked_def update_conv' split: option.splits)

lemma plain_keeps: "map_of m k = Some v \<Longrightarrow> map_of (register_plain d m x) k = Some v"
  by (auto simp: register_plain_def unclaimed_def update_conv' split: option.splits if_splits)

lemma foldl_plain_keeps:
  "map_of m k = Some v \<Longrightarrow> map_of (foldl (register_plain d) m xs) k = Some v"
  by (induction xs arbitrary: m) (simp_all add: plain_keeps)

lemma foldl_marked_others:
  "\<forall>y \<in> set ys. getAttribute d y ''field-name'' \<noteq> Some f
     \<Longrightarrow> map_of (foldl (register_marked d) m ys) f = map_of m f"
  by (induction ys arbitrary: m) (simp_all add: register_marked_other)

lemma foldl_marked_last:
  assumes "getAttribute d el ''field-name'' = Some f" and "f \<noteq> []"
      and "\<forall>y \<in> set ys. getAttribute d y ''field-name'' \<noteq> Some f"
  shows "map_of (foldl (register_marked d) m (xs @ el # ys)) f = Some el"
  using assms by (simp add: foldl_marked_others register_marked_same)

lemma foldl_marked_claims:
  assumes "\<exists>x \<in> set xs. getAttribute d x ''field-name'' = Some f" and "f \<noteq> []"
  shows "\<exists>el'. map_of (foldl (register_marked d) m xs) f = Some el'
               \<and> getAttribute d el' ''field-name'' = Some f"
  using assms(1)
proof (induction xs rule: rev_induct)
  case Nil
  then show ?case by simp
next
  case (snoc x xs)
  show ?case
  proof (cases "getAttribute d x ''field-name'' = Some f")
    case True
    then show ?thesis using assms(2) by (simp add: register_marked_same)
  next
    case False
    then have "\<exists>x \<in> set xs. getAttribute d x ''field-name'' = Some f"
      using snoc.prems by auto
    then obtain el' where "map_of (foldl (register_marked d) m xs) f = Some el'"
      and "getAttribute d el' ''field-name'' = Some f"
      using snoc.IH by blast
    then show ?thesis using False
      by (simp add: register_marked_other)
  qed
qed

text \<open>The second pass adds entries for the control it visits only.\<close>

lemma plain_entries:
  "(k, v) \<in> set (register_plain d m z) \<Longrightarrow> (k, v) \<in> set m \<or> v = z"
  using set_update_subset [of _ z m]
  by (auto simp: register_plain_def split: option.splits if_splits)

lemma foldl_plain_entries:
  "(k, v) \<in> set (foldl (register_plain d) m zs) \<Longrightarrow> (k, v) \<in> set m \<or> v \<in> set zs"
proof (induction zs arbitrary: m)
  case Nil
  then show ?case by simp
next
  case (Cons z zs)
  then have "(k, v) \<in> set (register_plain d m z) \<or> v \<in> set zs" by simp
  then show ?case using plain_entries [of k v d m z] by auto
qed

lemma collectFields_split:
  "querySelectorAll d frm (sel_form_elements d) = xs @ x # ys
     \<Longrightarrow> collectFields d frm
         = foldl (register_plain d) (register_plain d (fields_upto d frm xs) x) ys"
  by (simp add: collectFields_def fields_upto_def)

lemma unmarked_first_pass:
  assumes "getAttribute d x ''field-name'' = None"
  shows "(k, x) \<notin> set (fields_upto d frm [])"
proof
  assume "(k, x) \<in> set (fields_upto d frm [])"
  moreover have "keys_sound d (fields_upto d frm [])"
    unfolding fields_upto_def foldl_Nil
    by (intro keys_sound_foldl_marked) (simp add: keys_sound_def)
  moreover have "(k', v) \<in> set (foldl (register_marked d) m ms)
                   \<Longrightarrow> (k', v) \<in> set m \<or> getAttribute d v ''field-name'' \<noteq> None" for k' v m ms
  proof (induction ms arbitrary: m)
    case Nil
    then show ?case by simp
  next
    case (Cons z ms)
    then have "(k', v) \<in> set (register_marked d m z) \<or> getAttribute d v ''field-name'' \<noteq> None"
      by simp
    then show ?case
      using set_update_subset [of _ z m]
      by (auto simp: register_marked_def split: option.splits if_splits)
  qed
  ultimately show False using assms by (fastforce simp: fields_upto_def)
qed

lemma unmarked_entries:
  assumes un: "getAttribute d x ''field-name'' = None"
      and "(k, x) \<in> set (fields_upto d frm xs)"
  shows "x \<in> set xs"
proof -
  have "(k, x) \<in> set (fields_upto d frm []) \<or> x \<in> set xs"
    using assms(2) foldl_plain_entries [of k x d "fields_upto d frm []" xs]
    by (simp add: fields_upto_def)
  then show ?thesis using unmarked_first_pass [OF un] by blast
qed

lemma name_first:
  assumes un: "getAttribute d x ''field-name'' = None"
      and split: "querySelectorAll d frm (sel_form_elements d) = xs @ x # ys"
      and name: "getAttribute d x ''name'' = Some n" and ne: "n \<noteq> []"
      and free: "map_of (fields_upto d frm xs) n = None"
  shows "map_of (collectFields d frm) n = Some x"
    and "x \<notin> set xs \<Longrightarrow> x \<notin> set ys \<Longrightarrow> map_of (collectFields d frm) k = Some x \<Longrightarrow> k = n"
proof -
  have step: "register_plain d (fields_upto d frm xs) x = AList.update n x (fields_upto d frm xs)"
    using un name ne free by (simp add: register_plain_def hasAttribute_def unclaimed_def)
  have "map_of (register_plain d (fields_upto d frm xs) x) n = Some x"
    by (simp add: step update_conv')
  then show "map_of (collectFields d frm) n = Some x"
    unfolding collectFields_split [OF split] by (rule foldl_plain_keeps)
  assume once: "x \<notin> set xs" "x \<notin> set ys" and "map_of (collectFields d frm) k = Some x"
  then have "(k, x) \<in> set (collectFields d frm)" by (simp add: map_of_SomeD)
  then have "(k, x) \<in> set (register_plain d (fields_upto d frm xs) x)"
    unfolding collectFields_split [OF split]
    using foldl_plain_entries once(2) by blast
  then have "(k, x) = (n, x) \<or> (k, x) \<in> set (fields_upto d frm xs)"
    unfolding step using set_update_subset [of n x "fields_upto d frm xs"] by auto
  then show "k = n" using unmarked_entries [OF un] once(1) by blast
qed

lemma id_second:
  assumes un: "getAttribute d x ''field-name'' = None"
      and split: "querySelectorAll d frm (sel_form_elements d) = xs @ x # ys"
      and name: "\<forall>n. getAttribute d x ''name'' = Some n
                     \<longrightarrow> n = [] \<or> map_of (fields_upto d frm xs) n \<noteq> None"
      and ident: "getAttribute d x ''id'' = Some i" and ne: "i \<noteq> []"
      and free: "map_of (fields_upto d frm xs) i = None"
  shows "map_of (collectFields d frm) i = Some x"
proof -
  have "unclaimed (fields_upto d frm xs) (getAttribute d x ''name'') = None"
    using name by (auto simp: unclaimed_def split: option.splits)
  then have "register_plain d (fields_upto d frm xs) x = AList.update i x (fields_upto d frm xs)"
    using un ident ne free by (simp add: register_plain_def hasAttribute_def unclaimed_def)
  then have "map_of (register_plain d (fields_upto d frm xs) x) i = Some x"
    by (simp add: update_conv')
  then show ?thesis
    unfolding collectFields_split [OF split] by (rule foldl_plain_keeps)
qed

text \<open>
  C7 (amended). Markers come first. A control carrying a field-name marker \<open>f\<close> is
  registered under no key other than \<open>f\<close>, and only if \<open>f\<close> is not empty, so no
  lookup by its \<open>name\<close> or \<open>id\<close> (when different from \<open>f\<close>) resolves it. Of the
  controls carrying the same non-empty marker \<open>f\<close>, \<open>field(f)\<close> resolves the last in
  document order; in particular it resolves the control when no other carries \<open>f\<close>.
  Whenever a non-empty \<open>f\<close> is carried by some control of the form, \<open>field(f)\<close>
  resolves a control marked \<open>f\<close>, never one found by \<open>name\<close> or \<open>id\<close>.

  Among the controls without a marker, \<open>name\<close> comes before \<open>id\<close>. Such a control
  is registered under non-empty keys that are its \<open>name\<close> or its \<open>id\<close>. If its
  \<open>name\<close> is not empty and not yet a key when the second pass reaches the control, the
  control is registered under its \<open>name\<close> and under no other key (the control
  being listed once in the second pass, as every element of a document is). It is registered
  under its \<open>id\<close> if the \<open>name\<close> is absent, empty or already a key, and the
  \<open>id\<close> is not empty and not yet a key; and a key of the control that is not its
  \<open>name\<close> is its \<open>id\<close>, used because the \<open>name\<close> was absent, empty or
  already a key.
\<close>
theorem field_name_priority:
  "(getAttribute d el ''field-name'' = Some f \<longrightarrow>
      (\<forall>k. fc_field (new_FormConnector env d frm opts) k = Some el \<longrightarrow> k = f \<and> f \<noteq> [])
      \<and> (f \<noteq> [] \<and> el \<in> set (querySelectorAll d frm (sel_field_name d))
           \<and> (\<forall>el' \<in> set (querySelectorAll d frm (sel_field_name d)).
                 getAttribute d el' ''field-name'' = Some f \<longrightarrow> el' = el)
         \<longrightarrow> fc_field (new_FormConnector env d frm opts) f = Some el)
      \<and> (f \<noteq> [] \<and> querySelectorAll d frm (sel_field_name d) = ms @ el # ms'
           \<and> (\<forall>y \<in> set ms'. getAttribute d y ''field-name'' \<noteq> Some f)
         \<longrightarrow> fc_field (new_FormConnector env d frm opts) f = Some el)
      \<and> (f \<noteq> [] \<and> el \<in> set (querySelectorAll d frm (sel_field_name d))
         \<longrightarrow> (\<exists>el'. fc_field (new_FormConnector env d frm opts) f = Some el'
                    \<and> getAttribute d el' ''field-name'' = Some f)))
   \<and> (getAttribute d x ''field-name'' = None \<longrightarrow>
        (\<forall>k. fc_field (new_FormConnector env d frm opts) k = Some x \<longrightarrow>
           k \<noteq> [] \<and> (getAttribute d x ''name'' = Some k \<or> getAttribute d x ''id'' = Some k))
        \<and> (querySelectorAll d frm (sel_form_elements d) = xs @ x # ys \<longrightarrow>
             (\<forall>n. getAttribute d x ''name'' = Some n \<and> n \<noteq> []
                   \<and> map_of (fields_upto d frm xs) n = None \<longrightarrow>
                fc_field (new_FormConnector env d frm opts) n = Some x
                \<and> (x \<notin> set xs \<and> x \<notin> set ys \<longrightarrow>
                     (\<forall>k. fc_field (new_FormConnector env d frm opts) k = Some x \<longrightarrow> k = n)))
             \<and> (\<forall>i. (\<forall>n. getAttribute d x ''name'' = Some n \<longrightarrow>
                           n = [] \<or> map_of (fields_upto d frm xs) n \<noteq> None)
                   \<and> getAttribute d x ''id'' = Some i \<and> i \<noteq> []
                   \<and> map_of (fields_upto d frm xs) i = None \<longrightarrow>
                fc_field (new_FormConnector env d frm opts) i = Some x)
             \<and> (\<forall>i. x \<notin> set xs \<and> x \<notin> set ys
                   \<and> fc_field (new_FormConnector env d frm opts) i = Some x
                   \<and> getAttribute d x ''name'' \<noteq> Some i \<longrightarrow>
                getAttribute d x ''id'' = Some i
                \<and> (\<forall>n. getAttribute d x ''name'' = Some n \<longrightarrow>
                       n = [] \<or> map_of (fields_upto d frm xs) n \<noteq> None))))"
proof -
  have fc: "fc_field (new_FormConnector env d frm opts) k = map_of (collectFields d frm) k" for k
    by (simp add: fc_field_def new_FormConnector_def Let_def)
  have sound: "k \<noteq> []
        \<and> (case getAttribute d v ''field-name'' of
             Some f \<Rightarrow> k = f
           | None \<Rightarrow> getAttribute d v ''name'' = Some k \<or> getAttribute d v ''id'' = Some k)"
    if "map_of (collectFields d frm) k = Some v" for k v
  proof -
    have "(k, v) \<in> set (collectFields d frm)" using that by (rule map_of_SomeD)
    then show ?thesis
      using keys_sound_collectFields [of d frm] unfolding keys_sound_def by blast
  qed
  have marked: "map_of (collectFields d frm) f = map_of (fields_upto d frm []) f"
    if "map_of (fields_upto d frm []) f \<noteq> None" for f
    using that by (auto simp: collectFields_def fields_upto_def foldl_plain_keeps)
  show ?thesis
    unfolding fc
  proof (intro conjI impI allI)
    fix k assume "getAttribute d el ''field-name'' = Some f"
      and "map_of (collectFields d frm) k = Some el"
    then show "k = f" "f \<noteq> []" using sound [of k el] by auto
  next
    assume m: "getAttribute d el ''field-name'' = Some f"
      and h: "f \<noteq> [] \<and> el \<in> set (querySelectorAll d frm (sel_field_name d))
            \<and> (\<forall>el' \<in> set (querySelectorAll d frm (sel_field_name d)).
                  getAttribute d el' ''field-name'' = Some f \<longrightarrow> el' = el)"
    from h obtain ms ms' where sp: "querySelectorAll d frm (sel_field_name d) = ms @ el # ms'"
      and last: "el \<notin> set ms'"
      using split_list_last [of el "querySelectorAll d frm (sel_field_name d)"] by blast
    have ne: "f \<noteq> []" using h by blast
    have "getAttribute d y ''field-name'' \<noteq> Some f" if "y \<in> set ms'" for y
    proof
      assume "getAttribute d y ''field-name'' = Some f"
      moreover have "y \<in> set (querySelectorAll d frm (sel_field_name d))"
        using that unfolding sp by simp
      ultimately have "y = el" using h by blast
      then show False using that last by simp
    qed
    then have "\<forall>y \<in> set ms'. getAttribute d y ''field-name'' \<noteq> Some f" by blast
    then have "map_of (foldl (register_marked d) [] (ms @ el # ms')) f = Some el"
      by (rule foldl_marked_last [OF m ne])
    then have "map_of (fields_upto d frm []) f = Some el"
      unfolding fields_upto_def sp foldl_Nil .
    then show "map_of (collectFields d frm) f = Some el"
      using marked [of f] by simp
  next
    assume m: "getAttribute d el ''field-name'' = Some f"
      and h: "f \<noteq> [] \<and> querySelectorAll d frm (sel_field_name d) = ms @ el # ms'
           \<and> (\<forall>y \<in> set ms'. getAttribute d y ''field-name'' \<noteq> Some f)"
    have ne: "f \<noteq> []" and sp: "querySelectorAll d frm (sel_field_name d) = ms @ el # ms'"
      and oth: "\<forall>y \<in> set ms'. getAttribute d y ''field-name'' \<noteq> Some f"
      using h by blast+
    have "map_of (foldl (register_marked d) [] (ms @ el # ms')) f = Some el"
      by (rule foldl_marked_last [OF m ne oth])
    then have "map_of (fields_upto d frm []) f = Some el"
      unfolding fields_upto_def sp foldl_Nil .
    then show "map_of (collectFields d frm) f = Some el"
      using marked [of f] by simp
  next
    assume m: "getAttribute d el ''field-name'' = Some f"
      and h: "f \<noteq> [] \<and> el \<in> set (querySelectorAll d frm (sel_field_name d))"
    have "\<exists>x \<in> set (querySelectorAll d frm (sel_field_name d)).
            getAttribute d x ''field-name'' = Some f"
      using h m by auto
    from foldl_marked_claims [OF this, of "[]"] h
    obtain el' where e: "map_of (fields_upto d frm []) f = Some el'"
      and g: "getAttribute d el' ''field-name'' = Some f"
      unfolding fields_upto_def foldl_Nil by blast
    have "map_of (collectFields d frm) f = Some el'"
      using marked [of f] e by simp
    then show "\<exists>el'. map_of (collectFields d frm) f = Some el'
                \<and> getAttribute d el' ''field-name'' = Some f"
      using g by (intro exI [of _ el']) simp
  next
    fix k assume "getAttribute d x ''field-name'' = None"
      and "map_of (collectFields d frm) k = Some x"
    then show "k \<noteq> []"
      "getAttribute d x ''name'' = Some k \<or> getAttribute d x ''id'' = Some k"
      using sound [of k x] by simp_all
  next
    fix n assume un: "getAttribute d x ''field-name'' = None"
      and sp: "querySelectorAll d frm (sel_form_elements d) = xs @ x # ys"
      and h: "getAttribute d x ''name'' = Some n \<and> n \<noteq> []
                   \<and> map_of (fields_upto d frm xs) n = None"
    show "map_of (collectFields d frm) n = Some x"
      by (rule name_first(1) [OF un sp]) (use h in simp_all)
    fix k assume once: "x \<notin> set xs \<and> x \<notin> set ys"
      and k: "map_of (collectFields d frm) k = Some x"
    show "k = n"
      by (rule name_first(2) [OF un sp _ _ _ _ _ k]) (use h once in simp_all)
  next
    fix i assume un: "getAttribute d x ''field-name'' = None"
      and sp: "querySelectorAll d frm (sel_form_elements d) = xs @ x # ys"
      and h: "(\<forall>n. getAttribute d x ''name'' = Some n \<longrightarrow>
                           n = [] \<or> map_of (fields_upto d frm xs) n \<noteq> None)
                   \<and> getAttribute d x ''id'' = Some i \<and> i \<noteq> []
                   \<and> map_of (fields_upto d frm xs) i = None"
    show "map_of (collectFields d frm) i = Some x"
      by (rule id_second [OF un sp]) (use h in simp_all)
  next
    fix i assume un: "getAttribute d x ''field-name'' = None"
      and sp: "querySelectorAll d frm (sel_form_elements d) = xs @ x # ys"
      and h: "x \<notin> set xs \<and> x \<notin> set ys
                   \<and> map_of (collectFields d frm) i = Some x
                   \<and> getAttribute d x ''name'' \<noteq> Some i"
    show "getAttribute d x ''id'' = Some i"
      using sound [of i x] un h by simp
    fix n assume nm: "getAttribute d x ''name'' = Some n"
    show "n = [] \<or> map_of (fields_upto d frm xs) n \<noteq> None"
    proof (rule ccontr)
      assume "\<not> (n = [] \<or> map_of (fields_upto d frm xs) n \<noteq> None)"
      then have "n \<noteq> []" and "map_of (fields_upto d frm xs) n = None" by simp_all
      then have "i = n"
        by (rule name_first(2) [OF un sp nm]) (use h in simp_all)
      then show False using h nm by simp
    qed
  qed
qed

lemma marked_m: "querySelectorAll dom_m 1 (sel_field_name dom_m) = [2, 3, 4]"
  by (simp add: dom_defs fixture_defs dom_m_def)

lemma fields_m: "collectFields dom_m 1 = [(ascii ''a'', 3)]"
  by (simp add: registry_defs dom_defs fixture_defs dom_m_def)

text \<open>
  C7 as stated fails on three counts. Two controls carry the marker \<open>a\<close>: the first
  has a marker and a name, but \<open>field\<close> of its marker resolves the second control.
  The second control is named \<open>a\<close> as well, so \<open>field\<close> of its name does resolve
  it. The third control carries an empty marker and the name \<open>z\<close>: \<open>field\<close>
  resolves it neither by its marker nor by its name.
\<close>
theorem shared_marker_counterexample:
  "getAttribute dom_m 2 ''field-name'' = Some (ascii ''a'')
   \<and> getAttribute dom_m 2 ''name'' = Some (ascii ''x'')
   \<and> 2 \<in> set (querySelectorAll dom_m 1 (sel_field_name dom_m))
   \<and> fc_field (new_FormConnector example_env dom_m 1 no_options) (ascii ''a'') = Some 3
   \<and> fc_field (new_FormConnector example_env dom_m 1 no_options) (ascii ''a'') \<noteq> Some 2
   \<and> getAttribute dom_m 3 ''field-name'' = Some (ascii ''a'')
   \<and> getAttribute dom_m 3 ''name'' = Some (ascii ''a'')
   \<and> getAttribute dom_m 4 ''field-name'' = Some []
   \<and> getAttribute dom_m 4 ''name'' = Some (ascii ''z'')
   \<and> fc_field (new_FormConnector example_env dom_m 1 no_options) [] = None
   \<and> fc_field (new_FormConnector example_env dom_m 1 no_options) (ascii ''z'') = None"
proof -
  have a: "getAttribute dom_m 2 ''field-name'' = Some (ascii ''a'')"
    and b: "getAttribute dom_m 2 ''name'' = Some (ascii ''x'')"
    and a3: "getAttribute dom_m 3 ''field-name'' = Some (ascii ''a'')"
    and b3: "getAttribute dom_m 3 ''name'' = Some (ascii ''a'')"
    and a4: "getAttribute dom_m 4 ''field-name'' = Some []"
    and b4: "getAttribute dom_m 4 ''name'' = Some (ascii ''z'')"
    by (simp_all add: getAttribute_def node_of_def dom_m_def text_input_def new_node_def)
  have c: "fc_field (new_FormConnector example_env dom_m 1 no_options) (ascii ''a'') = Some 3"
    unfolding fc_field_def new_FormConnector_def fields_m by simp
  have e: "fc_field (new_FormConnector example_env dom_m 1 no_options) [] = None"
    unfolding fc_field_def new_FormConnector_def fields_m by (simp add: ascii_def)
  have z: "fc_field (new_FormConnector example_env dom_m 1 no_options) (ascii ''z'') = None"
    unfolding fc_field_def new_FormConnector_def fields_m by (simp add: ascii_def)
  have d: "2 \<in> set (querySelectorAll dom_m 1 (sel_field_name dom_m))"
    unfolding marked_m by simp
  from a b c d a3 b3 a4 b4 e z show ?thesis by simp
qed

lemma marked_p: "querySelectorAll dom_p 1 (sel_field_name dom_p) = [2]"
  by (simp add: dom_defs fixture_defs dom_p_def)

lemma plain_p: "querySelectorAll dom_p 1 (sel_form_elements dom_p) = [2, 3, 4]"
  by (simp add: dom_defs fixture_defs dom_p_def)

lemma upto_p2: "fields_upto dom_p 1 [2] = [(user_email_key, 2)]"
  by (simp add: fields_upto_def registry_defs dom_defs fixture_defs dom_p_def user_email_key_def)

lemma upto_p3: "fields_upto dom_p 1 [2, 3] = [(user_email_key, 2), (nick_key, 3)]"
  by (simp add: fields_upto_def registry_defs dom_defs fixture_defs dom_p_def user_email_key_def
      nick_key_def)

lemma fields_p:
  "collectFields dom_p 1 = [(user_email_key, 2), (nick_key, 3), (city_key, 4)]"
  by (simp add: registry_defs dom_defs fixture_defs dom_p_def user_email_key_def nick_key_def
      city_key_def)

lemma keys_p:
  "user_email_key \<noteq> []" "nick_key \<noteq> []" "city_key \<noteq> []"
  "email_key \<noteq> user_email_key" "nick_key \<noteq> user_email_key" "city_key \<noteq> user_email_key"
  "city_key \<noteq> nick_key" "c1_key \<noteq> city_key"
  by (simp_all add: user_email_key_def email_key_def nick_key_def city_key_def c1_key_def
      ascii_def)

text \<open>
  The control with marker \<open>user-email\<close>, name \<open>email\<close> and id \<open>email\<close>:
  \<open>field('user-email')\<close> resolves it and \<open>field('email')\<close> resolves nothing. The
  control named \<open>user-email\<close> with id \<open>nick\<close> finds its name taken by the marker and
  is registered under its id. The control named \<open>city\<close> with id \<open>c1\<close> is registered
  under its name and not under its id.
\<close>
theorem field_name_priority_witness:
  "getAttribute dom_p 2 ''field-name'' = Some user_email_key
   \<and> getAttribute dom_p 2 ''name'' = Some email_key
   \<and> user_email_key \<noteq> []
   \<and> querySelectorAll dom_p 1 (sel_field_name dom_p) = [2]
   \<and> fc_field (new_FormConnector example_env dom_p 1 no_options) user_email_key = Some 2
   \<and> fc_field (new_FormConnector example_env dom_p 1 no_options) email_key \<noteq> Some 2
   \<and> fc_field (new_FormConnector example_env dom_p 1 no_options) email_key = None
   \<and> querySelectorAll dom_p 1 (sel_form_elements dom_p) = [2, 3, 4]
   \<and> getAttribute dom_p 3 ''field-name'' = None
   \<and> getAttribute dom_p 3 ''name'' = Some user_email_key
   \<and> getAttribute dom_p 3 ''id'' = Some nick_key
   \<and> map_of (fields_upto dom_p 1 [2]) user_email_key = Some 2
   \<and> map_of (fields_upto dom_p 1 [2]) nick_key = None
   \<and> fc_field (new_FormConnector example_env dom_p 1 no_options) nick_key = Some 3
   \<and> getAttribute dom_p 4 ''field-name'' = None
   \<and> getAttribute dom_p 4 ''name'' = Some city_key
   \<and> getAttribute dom_p 4 ''id'' = Some c1_key
   \<and> map_of (fields_upto dom_p 1 [2, 3]) city_key = None
   \<and> fc_field (new_FormConnector example_env dom_p 1 no_options) city_key = Some 4
   \<and> fc_field (new_FormConnector example_env dom_p 1 no_options) c1_key \<noteq> Some 4"
proof -
  have h: "getAttribute dom_p 2 ''field-name'' = Some user_email_key"
    and n: "getAttribute dom_p 2 ''name'' = Some email_key"
    and h3: "getAttribute dom_p 3 ''field-name'' = None"
    and n3: "getAttribute dom_p 3 ''name'' = Some user_email_key"
    and i3: "getAttribute dom_p 3 ''id'' = Some nick_key"
    and h4: "getAttribute dom_p 4 ''field-name'' = None"
    and n4: "getAttribute dom_p 4 ''name'' = Some city_key"
    and i4: "getAttribute dom_p 4 ''id'' = Some c1_key"
    by (simp_all add: getAttribute_def node_of_def dom_p_def text_input_def new_node_def)
  have m2: "querySelectorAll dom_p 1 (sel_field_name dom_p) = [] @ 2 # []"
    unfolding marked_p by simp
  have p3: "querySelectorAll dom_p 1 (sel_form_elements dom_p) = [2] @ 3 # [4]"
    and p4: "querySelectorAll dom_p 1 (sel_form_elements dom_p) = [2, 3] @ 4 # []"
    unfolding plain_p by simp_all
  have u2: "map_of (fields_upto dom_p 1 [2]) user_email_key = Some 2"
    and u2n: "map_of (fields_upto dom_p 1 [2]) nick_key = None"
    unfolding upto_p2 using keys_p by simp_all
  have u3: "map_of (fields_upto dom_p 1 [2, 3]) city_key = None"
    unfolding upto_p3 using keys_p by simp
  note marked = field_name_priority
    [where d = dom_p and el = 2 and f = user_email_key and env = example_env and frm = 1
       and opts = no_options and ms = "[]" and ms' = "[]" and x = 3 and xs = "[2]"
       and ys = "[4]"]
  note plain = field_name_priority
    [where d = dom_p and el = 2 and f = user_email_key and env = example_env and frm = 1
       and opts = no_options and ms = "[]" and ms' = "[]" and x = 4 and xs = "[2, 3]"
       and ys = "[]"]
  note mk = marked [THEN conjunct1, THEN mp, OF h]
  note pl3 = marked [THEN conjunct2, THEN mp, OF h3, THEN conjunct2, THEN mp, OF p3]
  note pl4 = plain [THEN conjunct2, THEN mp, OF h4, THEN conjunct2, THEN mp, OF p4]
  have c1: "fc_field (new_FormConnector example_env dom_p 1 no_options) user_email_key = Some 2"
  proof (rule mk [THEN conjunct2, THEN conjunct2, THEN conjunct1, THEN mp])
    show "user_email_key \<noteq> [] \<and> querySelectorAll dom_p 1 (sel_field_name dom_p) = [] @ 2 # []
           \<and> (\<forall>y \<in> set []. getAttribute dom_p y ''field-name'' \<noteq> Some user_email_key)"
      using m2 keys_p(1) by simp
  qed
  have c2: "fc_field (new_FormConnector example_env dom_p 1 no_options) email_key \<noteq> Some 2"
    using mk [THEN conjunct1, THEN spec, of email_key] keys_p(4) by blast
  have c3: "fc_field (new_FormConnector example_env dom_p 1 no_options) nick_key = Some 3"
  proof (rule pl3 [THEN conjunct2, THEN conjunct1, THEN spec, of nick_key, THEN mp])
    show "(\<forall>n. getAttribute dom_p 3 ''name'' = Some n \<longrightarrow>
               n = [] \<or> map_of (fields_upto dom_p 1 [2]) n \<noteq> None)
          \<and> getAttribute dom_p 3 ''id'' = Some nick_key \<and> nick_key \<noteq> []
          \<and> map_of (fields_upto dom_p 1 [2]) nick_key = None"
      using n3 u2 i3 keys_p(2) u2n by simp
  qed
  have both: "fc_field (new_FormConnector example_env dom_p 1 no_options) city_key = Some 4
              \<and> ((4::nat) \<notin> set [2, 3] \<and> (4::nat) \<notin> set [] \<longrightarrow>
                   (\<forall>k. fc_field (new_FormConnector example_env dom_p 1 no_options) k = Some 4
                        \<longrightarrow> k = city_key))"
  proof (rule pl4 [THEN conjunct1, THEN spec, of city_key, THEN mp])
    show "getAttribute dom_p 4 ''name'' = Some city_key \<and> city_key \<noteq> []
          \<and> map_of (fields_upto dom_p 1 [2, 3]) city_key = None"
      using n4 keys_p(3) u3 by simp
  qed
  have c4: "fc_field (new_FormConnector example_env dom_p 1 no_options) city_key = Some 4"
    using both by (rule conjunct1)
  have "(4::nat) \<notin> set [2, 3] \<and> (4::nat) \<notin> set []" by simp
  then have only: "\<forall>k. fc_field (new_FormConnector example_env dom_p 1 no_options) k = Some 4
                 \<longrightarrow> k = city_key"
    by (rule both [THEN conjunct2, THEN mp])
  have c5: "fc_field (new_FormConnector example_env dom_p 1 no_options) c1_key \<noteq> Some 4"
    using only keys_p(8) by blast
  have none: "fc_field (new_FormConnector example_env dom_p 1 no_options) email_key = None"
    unfolding fc_field_def new_FormConnector_def Let_def fields_p
    by (simp add: user_email_key_def nick_key_def city_key_def email_key_def ascii_def)
  show ?thesis
    by (intro conjI h n keys_p(1) marked_p c1 c2 none plain_p h3 n3 i3 u2 u2n c3 h4 n4 i4 u3
        c4 c5)
qed

subsection \<open>One engine per field name\<close>

lemma formc_on_engine [simp]: "formc (on_engine name f s) = formc s"
  by (simp add: on_engine_def)

lemma validators_on_engine:
  "map_of (validators (on_engine name f s)) k
     = (if k = name then map_option f (map_of (validators s) k) else map_of (validators s) k)"
  by (simp add: on_engine_def map_of_map_entry split: option.splits)

lemma distinct_on_engine:
  "distinct (map fst (validators s)) \<Longrightarrow> distinct (map fst (validators (on_engine name f s)))"
  by (simp add: on_engine_def distinct_map_entry)

text \<open>
  C8. Once \<open>field(name)\<close> has answered an engine for a resolvable name, a later
  \<open>field(name)\<close> answers the same engine, carrying the rules attached meanwhile, and
  leaves the state unchanged; rules attached after the second call are appended to the
  same list, and the engine map holds each name at most once.
\<close>
theorem one_engine_per_name:
  assumes "fc_field (formc s) name = Some el"
      and "distinct (map fst (validators s))"
      and "V_field env d name s = (Inr v, s1)"
  shows "V_field env d' name (on_engine name (push t1 e1) s1)
           = (Inr (push t1 e1 v), on_engine name (push t1 e1) s1)
       \<and> map_of (validators (on_engine name (push t2 e2) (on_engine name (push t1 e1) s1))) name
           = Some (push t2 e2 (push t1 e1 v))
       \<and> rules (push t2 e2 (push t1 e1 v))
           = rules v @ [\<lparr>rtype = t1, error = e1\<rparr>, \<lparr>rtype = t2, error = e2\<rparr>]
       \<and> distinct (map fst (validators (on_engine name (push t2 e2) (on_engine name (push t1 e1) s1))))"
proof -
  have s1: "map_of (validators s1) name = Some v" "formc s1 = formc s"
    "distinct (map fst (validators s1))"
    using field_result [OF assms(3)] assms(2) by simp_all
  have "V_field env d' name (on_engine name (push t1 e1) s1)
           = (Inr (push t1 e1 v), on_engine name (push t1 e1) s1)"
    by (rule field_existing [where el = el]) (simp_all add: s1 assms(1) validators_on_engine)
  then show ?thesis
    using s1 by (simp add: validators_on_engine distinct_on_engine push_def)
qed

lemma field_a:
  "V_field example_env dom_a email_key (state_a\<lparr>validators := []\<rparr>)
     = (Inr (engine_a\<lparr>rules := []\<rparr>),
        state_a\<lparr>validators := [(email_key, engine_a\<lparr>rules := []\<rparr>)]\<rparr>)"
  by (simp add: V_field_def engine_defs registry_defs dom_defs fixture_defs dom_a_def
      state_a_def engine_a_def)

text \<open>
  On the form with the field \<open>email\<close>: \<open>field('email').required()\<close> followed by
  \<open>field('email').email()\<close> leaves one engine whose rules are \<open>required\<close>, \<open>email\<close>.
\<close>
theorem one_engine_per_name_witness:
  "fc_field (formc (state_a\<lparr>validators := []\<rparr>)) email_key = Some 2
   \<and> distinct (map fst (validators (state_a\<lparr>validators := []\<rparr>)))
   \<and> V_field example_env dom_a email_key (state_a\<lparr>validators := []\<rparr>)
       = (Inr (engine_a\<lparr>rules := []\<rparr>),
          state_a\<lparr>validators := [(email_key, engine_a\<lparr>rules := []\<rparr>)]\<rparr>)
   \<and> V_field example_env dom_a1 email_key
         (on_engine email_key (push Required msg_required)
            (state_a\<lparr>validators := [(email_key, engine_a\<lparr>rules := []\<rparr>)]\<rparr>))
       = (Inr (push Required msg_required (engine_a\<lparr>rules := []\<rparr>)),
          on_engine email_key (push Required msg_required)
            (state_a\<lparr>validators := [(email_key, engine_a\<lparr>rules := []\<rparr>)]\<rparr>))
   \<and> map_of (validators
         (on_engine email_key (push Email msg_email)
            (on_engine email_key (push Required msg_required)
               (state_a\<lparr>validators := [(email_key, engine_a\<lparr>rules := []\<rparr>)]\<rparr>)))) email_key
       = Some (push Email msg_email (push Required msg_required (engine_a\<lparr>rules := []\<rparr>)))
   \<and> rules (push Email msg_email (push Required msg_required (engine_a\<lparr>rules := []\<rparr>)))
       = [\<lparr>rtype = Required, error = msg_required\<rparr>, \<lparr>rtype = Email, error = msg_email\<rparr>]"
proof -
  have h1: "fc_field (formc (state_a\<lparr>validators := []\<rparr>)) email_key = Some 2"
    by (simp add: fc_field_def state_a_def)
  have h2: "distinct (map fst (validators (state_a\<lparr>validators := []\<rparr>)))"
    by simp
  have r: "rules (engine_a\<lparr>rules := []\<rparr>) = []" by simp
  show ?thesis
    using one_engine_per_name [OF h1 h2 field_a, of dom_a1 Required msg_required
        Email msg_email] h1 h2 field_a r
    by simp
qed

subsection \<open>The aggregate result\<close>

text \<open>
  The engine map holds each name once: this holds initially and every operation keeps it.
\<close>

lemma new_V_distinct: "distinct (map fst (validators (new_V env d frm opts)))"
  by (simp add: new_V_def)

lemma validate_loop_keys:
  "validate_loop env s vs (ok, errs, d, fin) = (ok', errs', d', fin')
     \<Longrightarrow> map fst fin' = map fst fin @ map fst vs"
proof (induction vs arbitrary: ok errs d fin)
  case Nil
  then show ?case by simp
next
  case (Cons p vs)
  obtain k v where p: "p = (k, v)" by (cases p)
  obtain err v' where val: "validate env d v = (err, v')" by (cases "validate env d v")
  have "validate_loop env s vs
          (if truthy err then False else ok, errors_set k err errs, present env s k err d,
           fin @ [(k, v')]) = (ok', errs', d', fin')"
    using Cons.prems p val by simp
  from Cons.IH [OF this] show ?case using p by simp
qed

lemma V_validate_keys:
  "map fst (validators (snd (snd (V_validate env d s)))) = map fst (validators s)"
proof -
  obtain ok errs d' fin where loop:
    "validate_loop env s (validators s) (True, empty_errors, d, []) = (ok, errs, d', fin)"
    by (cases "validate_loop env s (validators s) (True, empty_errors, d, [])") auto
  from validate_loop_keys [OF loop] show ?thesis
    using loop by (simp add: V_validate_def)
qed

lemma V_validateField_distinct:
  "distinct (map fst (validators s))
     \<Longrightarrow> distinct (map fst (validators (snd (snd (V_validateField env d name s)))))"
  by (auto simp: V_validateField_def distinct_update split: option.splits prod.splits)















subsection \<open>What validating one field writes\<close>

lemma length_upd [simp]: "length (upd n f d) = length d"
  by (simp add: upd_def)













text \<open>The single writes.\<close>

lemma set_textContent_length: "length d \<le> length (set_textContent c t d)"
  by (simp add: set_textContent_def split: option.splits)


































lemma length_class_ops [simp]:
  "length (classList_add el c d) = length d"
  "length (classList_remove el c d) = length d"
  "length (set_className el c d) = length d"
  "length (setAttribute el a c d) = length d"
  "length (set_display el c d) = length d"
  by (simp_all add: classList_add_def classList_remove_def set_className_def setAttribute_def
      set_display_def)

lemma length_show_classes [simp]: "length (show_classes s el d) = length d"
  by (simp add: show_classes_def split: option.splits)

lemma length_clear_classes [simp]: "length (clear_classes s el d) = length d"
  by (simp add: clear_classes_def split: option.splits)
































lemma a_not_b: "a_key \<noteq> b_key"
  by (simp add: a_key_def b_key_def ascii_def)

lemma registry_n: "formc (new_V example_env dom_n 1 no_options) = formc state_n"
  by (simp add: new_V_def registry_defs dom_defs fixture_defs dom_n_def state_n_def a_key_def
      b_key_def)

lemma validate_na: "validate example_env dom_n (engine_g a_key 2) = (Some msg_required, engine_g a_key 2)"
  by (simp add: engine_defs dom_defs fixture_defs dom_n_def msg_required_def engine_g_def)

lemma validate_nb: "validate example_env dom_n (engine_g b_key 4) = (Some msg_required, engine_g b_key 4)"
  by (simp add: engine_defs dom_defs fixture_defs dom_n_def msg_required_def engine_g_def)

lemma showError_na: "V_showError example_env state_n a_key msg_required dom_n = dom_n2"
  by (simp add: v_defs registry_defs dom_defs fixture_defs dom_n_def dom_n2_def state_n_def
      a_key_def b_key_def msg_required_nonempty)

lemma showError_nb: "V_showError example_env state_n b_key msg_required dom_n = dom_n1"
  by (simp add: v_defs registry_defs dom_defs fixture_defs dom_n_def dom_n1_def state_n_def
      a_key_def b_key_def msg_required_nonempty)

lemma validateField_na:
  "V_validateField example_env dom_n a_key state_n = (Inr (Some msg_required), dom_n2, state_n)"
proof -
  have v: "map_of (validators state_n) a_key = Some (engine_g a_key 2)"
    by (simp add: state_n_def)
  have u: "state_n\<lparr>validators := AList.update a_key (engine_g a_key 2) (validators state_n)\<rparr>
             = state_n"
    by (simp add: state_n_def)
  show ?thesis
    by (simp add: V_validateField_def v validate_na present_def msg_required_nonempty
        showError_na u)
qed

lemma validateField_nb:
  "V_validateField example_env dom_n b_key state_n = (Inr (Some msg_required), dom_n1, state_n)"
proof -
  have v: "map_of (validators state_n) b_key = Some (engine_g b_key 4)"
    using a_not_b by (simp add: state_n_def)
  have u: "state_n\<lparr>validators := AList.update b_key (engine_g b_key 4) (validators state_n)\<rparr>
             = state_n"
    using a_not_b by (simp add: state_n_def)
  show ?thesis
    by (simp add: V_validateField_def v validate_nb present_def msg_required_nonempty
        showError_nb u)
qed

text \<open>
  Error containers can also lie inside one another. On the form whose wrapper is the
  container of \<open>a\<close> and holds the control and the container of \<open>b\<close>, validating
  \<open>b\<close> changes the text that the container of \<open>a\<close> reports, and validating \<open>a\<close>
  replaces the content of the wrapper, which detaches the control and the container of
  \<open>b\<close>.
\<close>
theorem nested_containers_example:
  "formc (new_V example_env dom_n 1 no_options) = formc state_n
   \<and> getErrorContainer example_env dom_n (formc state_n) a_key = Some 3
   \<and> getErrorContainer example_env dom_n (formc state_n) b_key = Some 5
   \<and> V_validateField example_env dom_n b_key state_n = (Inr (Some msg_required), dom_n1, state_n)
   \<and> textContent dom_n 3 = []
   \<and> textContent dom_n1 3 = msg_required
   \<and> V_validateField example_env dom_n a_key state_n = (Inr (Some msg_required), dom_n2, state_n)
   \<and> parentNode dom_n 4 = Some 3
   \<and> parentNode dom_n 5 = Some 3
   \<and> parentNode dom_n2 4 = None
   \<and> parentNode dom_n2 5 = None"
proof -
  have ca: "getErrorContainer example_env dom_n (formc state_n) a_key = Some 3"
    by (simp add: getErrorContainer_def state_n_def)
  have cb: "getErrorContainer example_env dom_n (formc state_n) b_key = Some 5"
    using a_not_b by (simp add: getErrorContainer_def state_n_def)
  have t: "textContent dom_n 3 = []" "textContent dom_n1 3 = msg_required"
    by (simp_all add: dom_defs fixture_defs dom_n_def dom_n1_def)
  have p: "parentNode dom_n 4 = Some 3" "parentNode dom_n 5 = Some 3"
    "parentNode dom_n2 4 = None" "parentNode dom_n2 5 = None"
    by (simp_all add: dom_defs fixture_defs dom_n_def dom_n2_def)
  show ?thesis
    by (intro conjI registry_n ca cb validateField_nb t validateField_na p)
qed




end
